theory Spec2Isabelle
  imports Main "HOL-Library.Word" "HOL-Library.AList"
begin

unbundle bit_operations_syntax

section \<open>Buffers, checksums, dates\<close>

text \<open>
  A Node \<open>Buffer\<close> is a list of bytes. \<open>StaticHelpersChecksum.calculateChecksum\<close>
  (staticHelpers.checksum, not among the source files) is a parameter \<open>calculateChecksum\<close>
  of every operation that calls it: a pure function from bytes to a digest.
  \<open>Buffer.equals\<close> is equality of the byte lists.
\<close>

type_synonym byte = "8 word"
type_synonym Buffer = "byte list"
type_synonym ChecksumBuffer = "byte list"

text \<open>
  A JavaScript \<open>Date\<close> holds a time value in milliseconds or NaN (an invalid date).
  \<open>new Date()\<close> is \<open>Time now\<close>, with the clock reading \<open>now\<close> a parameter.
\<close>

datatype Date = Time int | InvalidDate

text \<open>JavaScript's \<open>a > b\<close> on two dates: false as soon as one of them is invalid (NaN).\<close>

fun date_gt :: "Date \<Rightarrow> Date \<Rightarrow> bool" where
  "date_gt (Time a) (Time b) = (a > b)"
| "date_gt _ _ = False"

text \<open>
  \<open>new Date(d)\<close> for an argument that may be \<open>undefined\<close>: a copy of the date, and the
  invalid date for \<open>undefined\<close>.
\<close>

fun new_Date :: "Date option \<Rightarrow> Date" where
  "new_Date (Some d) = d"
| "new_Date None = InvalidDate"

text \<open>
  \<open>crypto.randomBytes(n)\<close>: \<open>n\<close> bytes drawn from the random source, here the stream
  \<open>rng\<close> of the bytes it hands out.
\<close>

definition randomBytes :: "(nat \<Rightarrow> byte) \<Rightarrow> nat \<Rightarrow> Buffer" where
  "randomBytes rng n = map rng [0..<n]"

text \<open>
  \<open>source.copy(target, targetStart, sourceStart, sourceEnd)\<close>: the bytes
  \<open>source[sourceStart, sourceEnd)\<close> written into \<open>target\<close> from \<open>targetStart\<close> on, as many
  as fit; the result is the target after the call.
\<close>

definition Buffer_copy :: "Buffer \<Rightarrow> Buffer \<Rightarrow> nat \<Rightarrow> nat \<Rightarrow> nat \<Rightarrow> Buffer" where
  "Buffer_copy source target targetStart sourceStart sourceEnd =
     (let chunk = take (length target - targetStart) (drop sourceStart (take sourceEnd source))
      in take targetStart target @ chunk @ drop (targetStart + length chunk) target)"

section \<open>Enumerations and errors\<close>

datatype BlockType =
    BlockType_RawData
  | BlockType_EncryptedOwnedDataBlock
  | BlockType_ConstituentBlockList
  | BlockType_ExtendedConstituentBlockListBlock
  | BlockType_Handle
  | BlockType_Random
  | BlockType_Ephemeral

datatype BlockDataType =
    BlockDataType_RawData
  | BlockDataType_EncryptedData
  | BlockDataType_EphemeralStructuredData

datatype BlockValidationErrorType =
    DataLengthTooShort
  | DataLengthExceedsCapacity
  | FutureCreationDate

datatype StoreErrorType =
    KeyNotFound
  | BlockPathAlreadyExists
  | BlockFileSizeMismatch
  | BlockSizeMismatch
  | BlockValidationFailed
  | BlockDirectoryCreationFailed
  | NoBlocksProvided

datatype HandleTupleErrorType =
    InvalidTupleSize
  | HandleTuple_BlockSizeMismatch
  | NoBlocksToXor
  | BlockSizesMustMatch

text \<open>
  Modelled from the spec: the class \<open>ChecksumMismatchError\<close> (errors/checksumMismatch) is
  not among the source files. It carries the two checksums of section 7, \<open>{expected,
  computed}\<close>; the test "should detect data corruption" reads them as \<open>error.expected\<close>
  and \<open>error.checksum\<close>, and \<open>from\<close> passes the computed checksum first and the caller's
  second. The selectors \<open>checksum\<close> and \<open>expected\<close> are these two fields.

  The other constructors are the error classes the source throws, each with its
  \<open>reason\<close>; \<open>HandleReadError\<close> is what the getters of a handle throw when its file
  cannot be read (with the path); \<open>FailedToLoadBlock\<close> and \<open>FailedToStoreXorResult\<close> are
  the plain \<open>Error\<close>s that \<open>BlockHandleTuple.xor\<close> wraps around a failure to read a handle
  or to store its result, and \<open>TypeError\<close> is a property read on \<open>undefined\<close>.
\<close>

datatype error =
    BlockValidationError BlockValidationErrorType
  | ChecksumMismatchError (checksum: ChecksumBuffer) (expected: ChecksumBuffer)
  | StoreError StoreErrorType
  | HandleTupleError HandleTupleErrorType
  | HandleReadError string
  | FailedToLoadBlock ChecksumBuffer
  | FailedToStoreXorResult error
  | TypeError

section \<open>Blocks\<close>

type_synonym Creator = string

record Block =
  blockSize :: nat
  data :: Buffer
  dateCreated :: Date
  idChecksum :: ChecksumBuffer
  blockType :: BlockType
  blockDataType :: BlockDataType
  canRead :: bool
  canPersist :: bool

record EphemeralBlockMetadata =
  meta_size :: nat
  meta_type :: BlockType
  meta_dataType :: BlockDataType
  meta_lengthWithoutPadding :: int
  meta_encrypted :: bool
  meta_creator :: "Creator option"
  meta_dateCreated :: Date

record EncryptedBlock = Block +
  metadata :: EphemeralBlockMetadata

text \<open>
  Modelled from the spec: \<open>StaticHelpersECIES.eciesOverheadLength\<close> (staticHelpers.ECIES) is
  not among the source files; section 6 gives the constant, 97.
\<close>

definition eciesOverheadLength :: nat where
  "eciesOverheadLength = 97"

text \<open>
  Modelled from the spec: the constructor of \<open>EncryptedBlock\<close> (blocks/encrypted) is not
  among the source files. By section 3 a block's creation date must not be in the future
  (\<open>FutureCreationDate\<close>, which the test "should reject future dates" expects of
  \<open>from\<close>, whose own body has no such check), and by step 7 of section 4.D the new block
  holds the buffer and the checksum it is given.
\<close>

definition TestEncryptedBlock_new ::
  "int \<Rightarrow> BlockType \<Rightarrow> BlockDataType \<Rightarrow> Buffer \<Rightarrow> ChecksumBuffer \<Rightarrow> EphemeralBlockMetadata
     \<Rightarrow> bool \<Rightarrow> bool \<Rightarrow> error + EncryptedBlock" where
  "TestEncryptedBlock_new now type dataType data' checksum' metadata' canRead' canPersist' =
     (if date_gt (meta_dateCreated metadata') (Time now)
      then Inl (BlockValidationError FutureCreationDate)
      else Inr \<lparr> blockSize = meta_size metadata', data = data',
                 dateCreated = meta_dateCreated metadata', idChecksum = checksum',
                 blockType = type, blockDataType = dataType,
                 canRead = canRead', canPersist = canPersist', metadata = metadata' \<rparr>)"

text \<open>
  \<open>TestEncryptedBlock.from\<close>. The parameters \<open>checksum\<close>, \<open>creator\<close>, \<open>dateCreated\<close> and
  \<open>actualDataLength\<close> may be \<open>undefined\<close> (\<open>None\<close>); a \<open>Buffer\<close> is always truthy, so
  \<open>checksum &&\<close> tests that it is given.
\<close>

definition TestEncryptedBlock_from ::
  "(Buffer \<Rightarrow> ChecksumBuffer) \<Rightarrow> (nat \<Rightarrow> byte) \<Rightarrow> int
     \<Rightarrow> BlockType \<Rightarrow> BlockDataType \<Rightarrow> nat \<Rightarrow> Buffer \<Rightarrow> ChecksumBuffer option
     \<Rightarrow> Creator option \<Rightarrow> Date option \<Rightarrow> int option \<Rightarrow> bool \<Rightarrow> bool
     \<Rightarrow> error + EncryptedBlock" where
  "TestEncryptedBlock_from calculateChecksum rng now type dataType blockSize' data' checksum'
       creator dateCreated' actualDataLength canRead' canPersist' =
     (if length data' < eciesOverheadLength
      then Inl (BlockValidationError DataLengthTooShort)
      else if length data' > blockSize'
      then Inl (BlockValidationError DataLengthExceedsCapacity)
      else if (case actualDataLength of
                 None \<Rightarrow> False
               | Some a \<Rightarrow> a > int blockSize' - int eciesOverheadLength)
      then Inl (BlockValidationError DataLengthExceedsCapacity)
      else
        let finalData = Buffer_copy data' (randomBytes rng blockSize') 0 0
                          (min (length data') blockSize');
            computedChecksum = calculateChecksum finalData
        in if (case checksum' of None \<Rightarrow> False | Some c \<Rightarrow> computedChecksum \<noteq> c)
           then Inl (ChecksumMismatchError computedChecksum (the checksum'))
           else
             let finalChecksum = (case checksum' of None \<Rightarrow> computedChecksum | Some c \<Rightarrow> c);
                 metadata' = \<lparr> meta_size = blockSize', meta_type = type,
                               meta_dataType = BlockDataType_EncryptedData,
                               meta_lengthWithoutPadding =
                                 (case actualDataLength of
                                    None \<Rightarrow> int (length data') - int eciesOverheadLength
                                  | Some a \<Rightarrow> a),
                               meta_encrypted = True, meta_creator = creator,
                               meta_dateCreated =
                                 (case dateCreated' of None \<Rightarrow> Time now | Some d \<Rightarrow> d) \<rparr>
             in TestEncryptedBlock_new now type dataType finalData finalChecksum metadata'
                  canRead' canPersist')"

text \<open>
  Modelled from the spec: the class \<open>RawDataBlock\<close> (blocks/rawData) is not among the
  source files. Its constructor takes (blockSize, data, dateCreated, checksum, blockType,
  blockDataType, canRead, canPersist), as the calls in the source show; as for every
  block (section 3) the creation date must not be in the future, and the block holds
  what it is given.
\<close>

definition RawDataBlock_new ::
  "int \<Rightarrow> nat \<Rightarrow> Buffer \<Rightarrow> Date \<Rightarrow> ChecksumBuffer \<Rightarrow> BlockType \<Rightarrow> BlockDataType
     \<Rightarrow> bool \<Rightarrow> bool \<Rightarrow> error + Block" where
  "RawDataBlock_new now blockSize' data' dateCreated' checksum' type dataType canRead' canPersist' =
     (if date_gt dateCreated' (Time now)
      then Inl (BlockValidationError FutureCreationDate)
      else Inr \<lparr> blockSize = blockSize', data = data', dateCreated = dateCreated',
                 idChecksum = checksum', blockType = type, blockDataType = dataType,
                 canRead = canRead', canPersist = canPersist' \<rparr>)"

text \<open>
  Modelled from the spec: \<open>validate()\<close> of a block (section 4.D) recomputes the checksum
  over \<open>data\<close>, matches it with the stored one, and rechecks the date invariant.
\<close>

definition validate :: "(Buffer \<Rightarrow> ChecksumBuffer) \<Rightarrow> int \<Rightarrow> Block \<Rightarrow> error + unit" where
  "validate calculateChecksum now block =
     (if calculateChecksum (data block) \<noteq> idChecksum block
      then Inl (ChecksumMismatchError (calculateChecksum (data block)) (idChecksum block))
      else if date_gt (dateCreated block) (Time now)
      then Inl (BlockValidationError FutureCreationDate)
      else Inr ())"

section \<open>The file system\<close>

text \<open>
  The part of the file system the store uses: the regular files by path, each with its
  content and its birth time, and the paths at which a write fails (\<open>writeFileSync\<close>
  throws there). Directories are not modelled.
\<close>

record FileEntry =
  content :: Buffer
  birthtime :: Date

record FileSystem =
  files :: "string \<Rightarrow> FileEntry option"
  writable :: "string \<Rightarrow> bool"

definition existsSync :: "FileSystem \<Rightarrow> string \<Rightarrow> bool" where
  "existsSync fs path = (files fs path \<noteq> None)"

text \<open>
  \<open>writeFileSync(path, data)\<close> at clock reading \<open>now\<close>: \<open>None\<close> when the write throws,
  else the file system with the file (over)written; a new file is born now.
\<close>

definition writeFileSync :: "int \<Rightarrow> FileSystem \<Rightarrow> string \<Rightarrow> Buffer \<Rightarrow> FileSystem option" where
  "writeFileSync now fs path data' =
     (if \<not> writable fs path then None
      else Some (fs \<lparr> files := (files fs)
             (path := Some \<lparr> content = data',
                              birthtime = (case files fs path of
                                             None \<Rightarrow> Time now
                                           | Some f \<Rightarrow> birthtime f) \<rparr>) \<rparr>))"

section \<open>Handles and the disk block store\<close>

record BlockHandle =
  handle_blockType :: BlockType
  handle_blockDataType :: BlockDataType
  handle_idChecksum :: ChecksumBuffer
  handle_blockSize :: nat
  handle_canRead :: bool
  handle_canPersist :: bool
  handle_path :: string

text \<open>
  The store: its root, its block size, and \<open>blockPath\<close>, the method of the base class
  \<open>DiskBlockStore\<close> (stores/diskBlockStore, not among the source files) that maps a
  checksum to the path of its file; it is a field here, so every result holds for any
  layout of the paths.
\<close>

record DiskBlockAsyncStore =
  store_storePath :: string
  store_blockSize :: nat
  blockPath :: "ChecksumBuffer \<Rightarrow> string"

definition has :: "FileSystem \<Rightarrow> DiskBlockAsyncStore \<Rightarrow> ChecksumBuffer \<Rightarrow> bool" where
  "has fs store key = existsSync fs (blockPath store key)"

definition get :: "DiskBlockAsyncStore \<Rightarrow> ChecksumBuffer \<Rightarrow> BlockHandle" where
  "get store key =
     \<lparr> handle_blockType = BlockType_Handle, handle_blockDataType = BlockDataType_RawData,
       handle_idChecksum = key, handle_blockSize = store_blockSize store,
       handle_canRead = True, handle_canPersist = True,
       handle_path = blockPath store key \<rparr>"

definition getData :: "int \<Rightarrow> FileSystem \<Rightarrow> DiskBlockAsyncStore \<Rightarrow> ChecksumBuffer \<Rightarrow> error + Block" where
  "getData now fs store key =
     (case files fs (blockPath store key) of
        None \<Rightarrow> Inl (StoreError KeyNotFound)
      | Some file \<Rightarrow>
          if length (content file) \<noteq> store_blockSize store
          then Inl (StoreError BlockFileSizeMismatch)
          else RawDataBlock_new now (store_blockSize store) (content file) (birthtime file) key
                 BlockType_RawData BlockDataType_EphemeralStructuredData True True)"

text \<open>
  \<open>setData\<close> returns its outcome and the file system it leaves. \<open>ensureBlockPath\<close> (of the
  absent base class) creates the shard directories (section 4.E) and touches no file.
\<close>

definition setData ::
  "(Buffer \<Rightarrow> ChecksumBuffer) \<Rightarrow> int \<Rightarrow> FileSystem \<Rightarrow> DiskBlockAsyncStore \<Rightarrow> Block
     \<Rightarrow> (error + unit) \<times> FileSystem" where
  "setData calculateChecksum now fs store block =
     (if blockSize block \<noteq> store_blockSize store
      then (Inl (StoreError BlockSizeMismatch), fs)
      else if existsSync fs (blockPath store (idChecksum block))
      then (Inl (StoreError BlockPathAlreadyExists), fs)
      else
        case validate calculateChecksum now block of
          Inl e \<Rightarrow> (Inl (StoreError BlockValidationFailed), fs)
        | Inr u \<Rightarrow>
            (case writeFileSync now fs (blockPath store (idChecksum block)) (data block) of
               None \<Rightarrow> (Inl (StoreError BlockDirectoryCreationFailed), fs)
             | Some fs' \<Rightarrow> (Inr (), fs')))"

text \<open>
  Modelled from the spec: the class \<open>BlockHandle\<close> (blocks/handle) is not among the source
  files. By section 4.H its \<open>data\<close> getter synchronously reads the file at the handle's
  path, and \<open>fullData\<close> yields the padded bytes of that file; the getter throws when
  there is no file.
\<close>

definition BlockHandle_data :: "FileSystem \<Rightarrow> BlockHandle \<Rightarrow> error + Buffer" where
  "BlockHandle_data fs handle =
     (case files fs (handle_path handle) of
        None \<Rightarrow> Inl (HandleReadError (handle_path handle))
      | Some f \<Rightarrow> Inr (content f))"

definition BlockHandle_fullData :: "FileSystem \<Rightarrow> BlockHandle \<Rightarrow> error + Buffer" where
  "BlockHandle_fullData fs handle =
     (case files fs (handle_path handle) of
        None \<Rightarrow> Inl (HandleReadError (handle_path handle))
      | Some f \<Rightarrow> Inr (content f))"

text \<open>
  The metadata handed to the two \<open>xor\<close> operations (\<open>IBlockMetadata\<close>, not among the source
  files): \<open>BlockHandleTuple.xor\<close> tests \<open>destBlockMetadata.dateCreated\<close> before it uses
  it, so the field may be missing (\<open>None\<close>).
\<close>

record IBlockMetadata =
  dest_size :: nat
  dest_type :: BlockType
  dest_dataType :: BlockDataType
  dest_lengthWithoutPadding :: int
  dest_dateCreated :: "Date option"

section \<open>XOR of blocks\<close>

text \<open>
  The loop of \<open>BlockHandleTuple.xor\<close> over \<open>blockData[1..]\<close>, started with
  \<open>result = blockData[0]\<close>: each round compares the lengths, then fills a fresh buffer
  of \<open>result.length\<close> bytes with \<open>result[j] ^ current[j]\<close>.
\<close>

fun xorLoop :: "Buffer \<Rightarrow> Buffer list \<Rightarrow> error + Buffer" where
  "xorLoop result [] = Inr result"
| "xorLoop result (current # rest) =
     (if length current \<noteq> length result
      then Inl (HandleTupleError BlockSizesMustMatch)
      else xorLoop (map (\<lambda>j. (result ! j) XOR (current ! j)) [0..<length result]) rest)"

definition xorBlockData :: "Buffer list \<Rightarrow> error + Buffer" where
  "xorBlockData blockData =
     (case blockData of
        [] \<Rightarrow> Inl TypeError
      | first # rest \<Rightarrow> xorLoop first rest)"

text \<open>
  \<open>Promise.all\<close> over the handles: each callback returns \<open>handle.data\<close> or rethrows as a
  plain \<open>Error\<close> naming the handle; the first handle that fails decides the rejection.
\<close>

fun loadBlockData :: "FileSystem \<Rightarrow> BlockHandle list \<Rightarrow> error + Buffer list" where
  "loadBlockData fs [] = Inr []"
| "loadBlockData fs (handle # rest) =
     (case BlockHandle_data fs handle of
        Inl e \<Rightarrow> Inl (FailedToLoadBlock (handle_idChecksum handle))
      | Inr d \<Rightarrow>
          (case loadBlockData fs rest of
             Inl e \<Rightarrow> Inl e
           | Inr ds \<Rightarrow> Inr (d # ds)))"

text \<open>
  Modelled from the spec: the constant \<open>TUPLE_SIZE\<close> (constants, not among the source
  files); section 3 gives the arity of a tuple as 3, and section 8 XORs three blocks.
\<close>

definition TUPLE_SIZE :: nat where
  "TUPLE_SIZE = 3"

datatype BlockHandleTuple = BlockHandleTuple (handles: "BlockHandle list")

text \<open>
  The constructor. \<open>handles[0].blockSize\<close> on an empty array is a \<open>TypeError\<close>; the array
  is stored as it is.
\<close>

definition BlockHandleTuple_new :: "BlockHandle list \<Rightarrow> error + BlockHandleTuple" where
  "BlockHandleTuple_new handles' =
     (if length handles' \<noteq> TUPLE_SIZE
      then Inl (HandleTupleError InvalidTupleSize)
      else
        case handles' of
          [] \<Rightarrow> Inl TypeError
        | h0 # rest \<Rightarrow>
            if \<not> list_all (\<lambda>h. handle_blockSize h = handle_blockSize h0) handles'
            then Inl (HandleTupleError HandleTuple_BlockSizeMismatch)
            else Inr (BlockHandleTuple handles'))"

text \<open>
  \<open>BlockHandleTuple.xor\<close>, in two parts. The first is the method up to the
  \<open>RawDataBlock\<close> it builds for the result (returned with its checksum): the guard, the
  loading of the data, the XOR loop, the checksum and the constructor call. A \<open>Date\<close> object is always truthy, so the
  test of \<open>destBlockMetadata.dateCreated\<close> is whether it is there.
\<close>

definition BlockHandleTuple_xor_block ::
  "(Buffer \<Rightarrow> ChecksumBuffer) \<Rightarrow> int \<Rightarrow> FileSystem \<Rightarrow> BlockHandleTuple
     \<Rightarrow> IBlockMetadata \<Rightarrow> error + (Block \<times> ChecksumBuffer)" where
  "BlockHandleTuple_xor_block calculateChecksum now fs tuple destBlockMetadata =
     (if handles tuple = []
      then Inl (HandleTupleError NoBlocksToXor)
      else
        case loadBlockData fs (handles tuple) of
          Inl e \<Rightarrow> Inl e
        | Inr blockData \<Rightarrow>
            (case xorBlockData blockData of
               Inl e \<Rightarrow> Inl e
             | Inr result \<Rightarrow>
                 let checksum' = calculateChecksum result
                 in case RawDataBlock_new now (handle_blockSize (hd (handles tuple))) result
                           (case dest_dateCreated destBlockMetadata of
                              Some d \<Rightarrow> new_Date (Some d)
                            | None \<Rightarrow> Time now)
                           checksum' BlockType_RawData BlockDataType_RawData True True of
                      Inl e \<Rightarrow> Inl e
                    | Inr block \<Rightarrow> Inr (block, checksum')))"

text \<open>
  The second part stores the block and returns the handle of its checksum, with the file
  system it leaves. \<open>setData\<close> and \<open>get\<close> run inside the \<open>try\<close>, whose handler wraps what
  \<open>setData\<close> throws in a plain \<open>Error\<close>.
\<close>

definition BlockHandleTuple_xor ::
  "(Buffer \<Rightarrow> ChecksumBuffer) \<Rightarrow> int \<Rightarrow> FileSystem \<Rightarrow> BlockHandleTuple
     \<Rightarrow> DiskBlockAsyncStore \<Rightarrow> IBlockMetadata \<Rightarrow> (error + BlockHandle) \<times> FileSystem" where
  "BlockHandleTuple_xor calculateChecksum now fs tuple diskBlockStore destBlockMetadata =
     (case BlockHandleTuple_xor_block calculateChecksum now fs tuple destBlockMetadata of
        Inl e \<Rightarrow> (Inl e, fs)
      | Inr (block, checksum') \<Rightarrow>
          (case setData calculateChecksum now fs diskBlockStore block of
             (Inl e, fs') \<Rightarrow> (Inl (FailedToStoreXorResult e), fs')
           | (Inr u, fs') \<Rightarrow> (Inr (get diskBlockStore checksum'), fs')))"

text \<open>
  The tuple as an object. A JavaScript array lives on the heap, and the constructor keeps
  the reference it is given (\<open>this._handles = handles\<close>, no copy); the \<open>handles\<close> getter
  hands the same reference out. The heap maps the reference of an array to its present
  elements, and a tuple object is the reference in its field \<open>_handles\<close>. The constructor
  checks the elements the array has when it runs; \<open>xor\<close> reads the elements the array
  has when it is called. No method of the class writes the field or the array.
\<close>

type_synonym ArrayHeap = "nat \<Rightarrow> BlockHandle list"

datatype BlockHandleTupleObject = BlockHandleTupleObject (handles_ref: nat)

definition BlockHandleTuple_constructor ::
  "ArrayHeap \<Rightarrow> nat \<Rightarrow> error + BlockHandleTupleObject" where
  "BlockHandleTuple_constructor heap handles' =
     (case BlockHandleTuple_new (heap handles') of
        Inl e \<Rightarrow> Inl e
      | Inr t \<Rightarrow> Inr (BlockHandleTupleObject handles'))"

definition BlockHandleTupleObject_xor ::
  "(Buffer \<Rightarrow> ChecksumBuffer) \<Rightarrow> int \<Rightarrow> FileSystem \<Rightarrow> ArrayHeap \<Rightarrow> BlockHandleTupleObject
     \<Rightarrow> DiskBlockAsyncStore \<Rightarrow> IBlockMetadata \<Rightarrow> (error + BlockHandle) \<times> FileSystem" where
  "BlockHandleTupleObject_xor calculateChecksum now fs heap tuple diskBlockStore destBlockMetadata =
     BlockHandleTuple_xor calculateChecksum now fs (BlockHandleTuple (heap (handles_ref tuple)))
       diskBlockStore destBlockMetadata"

text \<open>
  What a caller can do to the array it passed in, or to the one the getter returns:
  \<open>array.pop()\<close> removes the last element, and leaves an empty array empty.
\<close>

definition Array_pop :: "ArrayHeap \<Rightarrow> nat \<Rightarrow> ArrayHeap" where
  "Array_pop heap array = heap (array := butlast (heap array))"

text \<open>
  Modelled from the spec: \<open>XorMultipleTransformStream\<close>, \<open>ChecksumTransform\<close> and
  \<open>MemoryWritableStream\<close> (transforms, memoryWriteableStream) are not among the source
  files. By section 4.F the pipeline emits the bytes whose i-th is the XOR of the i-th
  byte of each operand, a length mismatch is a hard error (\<open>BlockSizesMustMatch\<close>), and
  the checksum transform hashes the bytes that pass: the sink's data and the checksum
  emitted, or the error the pipeline rejects with.
\<close>

definition xorPipeline ::
  "(Buffer \<Rightarrow> ChecksumBuffer) \<Rightarrow> Buffer list \<Rightarrow> error + (Buffer \<times> ChecksumBuffer)" where
  "xorPipeline calculateChecksum streams =
     (case xorBlockData streams of
        Inl e \<Rightarrow> Inl e
      | Inr out \<Rightarrow> Inr (out, calculateChecksum out))"

fun loadFullData :: "FileSystem \<Rightarrow> BlockHandle list \<Rightarrow> error + Buffer list" where
  "loadFullData fs [] = Inr []"
| "loadFullData fs (block # rest) =
     (case BlockHandle_fullData fs block of
        Inl e \<Rightarrow> Inl e
      | Inr d \<Rightarrow>
          (case loadFullData fs rest of
             Inl e \<Rightarrow> Inl e
           | Inr ds \<Rightarrow> Inr (d # ds)))"

text \<open>
  \<open>DiskBlockAsyncStore.xor\<close>: on the checksum event the block is built with
  \<open>new Date(destBlockMetadata.dateCreated)\<close> and the metadata's data type; what the
  constructor throws rejects the promise.
\<close>

definition DiskBlockAsyncStore_xor ::
  "(Buffer \<Rightarrow> ChecksumBuffer) \<Rightarrow> int \<Rightarrow> FileSystem \<Rightarrow> DiskBlockAsyncStore
     \<Rightarrow> BlockHandle list \<Rightarrow> IBlockMetadata \<Rightarrow> error + Block" where
  "DiskBlockAsyncStore_xor calculateChecksum now fs store blocks destBlockMetadata =
     (if blocks = []
      then Inl (StoreError NoBlocksProvided)
      else
        case loadFullData fs blocks of
          Inl e \<Rightarrow> Inl e
        | Inr streams \<Rightarrow>
            (case xorPipeline calculateChecksum streams of
               Inl e \<Rightarrow> Inl e
             | Inr (writeStream_data, checksumBuffer) \<Rightarrow>
                 RawDataBlock_new now (store_blockSize store) writeStream_data
                   (new_Date (dest_dateCreated destBlockMetadata))
                   checksumBuffer BlockType_RawData (dest_dataType destBlockMetadata)
                   True True))"

section \<open>Quorum sealing\<close>

text \<open>
  \<open>StaticHelpersSealing\<close>. A \<open>SealingError\<close> carries its type; \<open>LibraryError\<close> is whatever
  the secret sharing, the ECIES envelope or the symmetric codec throw.
\<close>

datatype SealingErrorType =
    InvalidBitRange
  | NotEnoughMembersToUnlock
  | TooManyMembersToUnlock
  | InvalidMemberArray
  | MissingPrivateKeys
  | EncryptedShareNotFound
  | MemberNotFound
  | FailedToSeal

datatype sealing_error = SealingError SealingErrorType | LibraryError

text \<open>
  The id of a member is a \<open>GuidV4\<close> object: \<open>guid_object\<close> is the object itself (its
  reference, which \<open>v.id == memberId\<close> in \<open>encryptSharesForMembers\<close> compares), and
  \<open>asShortHexGuid\<close> is the text that keys the map of the shares. A member, as far as
  sealing reads it, is its id, its public key, and its private key when it is loaded.
\<close>

type_synonym ShortHexGuid = string

record GuidV4 =
  guid_object :: nat
  asShortHexGuid :: ShortHexGuid

record BrightChainMember =
  member_id :: GuidV4
  publicKey :: Buffer
  privateKey :: "Buffer option"

definition privateKeyLoaded :: "BrightChainMember \<Rightarrow> bool" where
  "privateKeyLoaded member = (privateKey member \<noteq> None)"

text \<open>
  The code sealing calls and the source files do not hold, as parameters:
  \<open>StaticHelpersSymmetric.symmetricEncryptJson\<close> (returning the key and the encrypted
  data) and \<open>symmetricDecryptJson\<close>, \<open>StaticHelpersECIES.encrypt\<close> and
  \<open>decryptWithHeader\<close>, and \<open>secrets.share\<close> and \<open>secrets.combine\<close> of secrets.js, which
  work at the bit width the last \<open>secrets.init\<close> configured (their first argument here).
\<close>

record 'v CryptoLibrary =
  symmetricEncryptJson :: "'v \<Rightarrow> Buffer \<times> Buffer"
  symmetricDecryptJson :: "Buffer \<Rightarrow> Buffer \<Rightarrow> sealing_error + 'v"
  ecies_encrypt :: "Buffer \<Rightarrow> Buffer \<Rightarrow> Buffer"
  ecies_decryptWithHeader :: "Buffer \<Rightarrow> Buffer \<Rightarrow> sealing_error + Buffer"
  secrets_share :: "nat \<Rightarrow> string \<Rightarrow> nat \<Rightarrow> nat \<Rightarrow> sealing_error + string list"
  secrets_combine :: "nat \<Rightarrow> string list \<Rightarrow> sealing_error + string"

text \<open>
  Modelled from the spec: the class \<open>QuorumDataRecord\<close> (quorumDataRecord) is not among
  the source files; by section 3 it holds the agent, the member ids, \<open>sharesRequired\<close>,
  the encrypted data and the encrypted shares by member id. The \<open>Map\<close> of the shares is
  an association list in insertion order, \<open>set\<close> is \<open>AList.update\<close>, \<open>get\<close> is \<open>map_of\<close> and
  \<open>size\<close> is its length.
\<close>

record QuorumDataRecord =
  agent :: BrightChainMember
  memberIds :: "ShortHexGuid list"
  sharesRequired :: nat
  encryptedData :: Buffer
  encryptedSharesByMemberId :: "(ShortHexGuid \<times> Buffer) list"

text \<open>
  \<open>buffer.toString('hex')\<close> writes two lower-case hex digits per byte;
  \<open>Buffer.from(string, 'hex')\<close> reads pairs of hex digits of either case and stops at the
  first pair that is not one (a last single character is dropped).
\<close>

definition hexChar :: "nat \<Rightarrow> char" where
  "hexChar n = ''0123456789abcdef'' ! n"

definition hexValue :: "char \<Rightarrow> nat option" where
  "hexValue c =
     (if c \<in> set ''0123456789'' then Some (of_char c - 48)
      else if c \<in> set ''abcdef'' then Some (of_char c - 87)
      else if c \<in> set ''ABCDEF'' then Some (of_char c - 55)
      else None)"

definition Buffer_toString_hex :: "Buffer \<Rightarrow> string" where
  "Buffer_toString_hex b = concat (map (\<lambda>x. [hexChar (unat x div 16), hexChar (unat x mod 16)]) b)"

fun Buffer_from_hex :: "string \<Rightarrow> Buffer" where
  "Buffer_from_hex (c1 # c2 # rest) =
     (case hexValue c1 of
        None \<Rightarrow> []
      | Some h \<Rightarrow>
          (case hexValue c2 of
             None \<Rightarrow> []
           | Some l \<Rightarrow> of_nat (16 * h + l) # Buffer_from_hex rest))"
| "Buffer_from_hex cs = []"

text \<open>The strings that \<open>toString('hex')\<close> produces: lower-case hex digits, an even number.\<close>

fun isLowerHex :: "string \<Rightarrow> bool" where
  "isLowerHex [] = True"
| "isLowerHex [c] = False"
| "isLowerHex (c1 # c2 # rest) =
     (c1 \<in> set ''0123456789abcdef'' \<and> c2 \<in> set ''0123456789abcdef'' \<and> isLowerHex rest)"

definition MinimumShares :: nat where
  "MinimumShares = 2"

definition MaximumShares :: nat where
  "MaximumShares = 1048575"

text \<open>
  \<open>Math.ceil(Math.log2(n))\<close> for an integer \<open>n \<ge> 1\<close>: the least \<open>k\<close> with \<open>n \<le> 2 ^ k\<close>.
\<close>

function ceil_log2 :: "nat \<Rightarrow> nat" where
  "ceil_log2 n = (if n \<le> 1 then 0 else Suc (ceil_log2 ((n + 1) div 2)))"
  by pat_completeness auto
termination
  by (relation "measure (\<lambda>n. n)") auto

declare ceil_log2.simps [simp del]

text \<open>
  \<open>reinitSecrets\<close> returns the bit width it hands to \<open>secrets.init\<close>, which the later
  \<open>share\<close> or \<open>combine\<close> then works at.
\<close>

definition reinitSecrets :: "nat \<Rightarrow> sealing_error + nat" where
  "reinitSecrets maxShares =
     (if maxShares < MinimumShares \<or> maxShares > MaximumShares
      then Inl (SealingError InvalidBitRange)
      else
        let bits = max 3 (ceil_log2 maxShares)
        in if bits < 3 \<or> bits > 20 then Inl (SealingError InvalidBitRange) else Inr bits)"

definition validateQuorumSealInputs ::
  "BrightChainMember list \<Rightarrow> nat option \<Rightarrow> sealing_error + unit" where
  "validateQuorumSealInputs amongstMembers sharesRequired' =
     (if length amongstMembers < MinimumShares
      then Inl (SealingError NotEnoughMembersToUnlock)
      else if length amongstMembers > MaximumShares
      then Inl (SealingError TooManyMembersToUnlock)
      else
        let sharesRequired'' = (case sharesRequired' of
                                 None \<Rightarrow> length amongstMembers | Some n \<Rightarrow> n)
        in if sharesRequired'' < MinimumShares \<or> sharesRequired'' > length amongstMembers
           then Inl (SealingError NotEnoughMembersToUnlock)
           else Inr ())"

text \<open>
  The loop of \<open>encryptSharesForMembers\<close> over the indices of \<open>memberIds\<close>, with the map
  built so far.
\<close>

fun encryptLoop ::
  "'v CryptoLibrary \<Rightarrow> string list \<Rightarrow> BrightChainMember list \<Rightarrow> nat list
     \<Rightarrow> (ShortHexGuid \<times> Buffer) list \<Rightarrow> sealing_error + (ShortHexGuid \<times> Buffer) list" where
  "encryptLoop lib shares members [] encryptedSharesByMemberId' = Inr encryptedSharesByMemberId'"
| "encryptLoop lib shares members (i # rest) encryptedSharesByMemberId' =
     (let memberId = member_id (members ! i)
      in case find (\<lambda>v. guid_object (member_id v) = guid_object memberId) members of
           None \<Rightarrow> Inl (SealingError MemberNotFound)
         | Some member \<Rightarrow>
             let shareForMember = shares ! i;
                 encryptedKeyShare = ecies_encrypt lib (publicKey member)
                                       (Buffer_from_hex shareForMember)
             in encryptLoop lib shares members rest
                  (AList.update (asShortHexGuid (member_id member)) encryptedKeyShare
                     encryptedSharesByMemberId'))"

definition encryptSharesForMembers ::
  "'v CryptoLibrary \<Rightarrow> string list \<Rightarrow> BrightChainMember list
     \<Rightarrow> sealing_error + (ShortHexGuid \<times> Buffer) list" where
  "encryptSharesForMembers lib shares members =
     (if length shares \<noteq> length members
      then Inl (SealingError NotEnoughMembersToUnlock)
      else encryptLoop lib shares members [0..<length members] [])"

text \<open>
  \<open>quorumSeal\<close>. The member list is a list here, so the guard \<open>InvalidMemberArray\<close> (a
  value that is no array) has no branch; \<open>sharesRequired\<close> may be missing.
\<close>

definition quorumSeal ::
  "'v CryptoLibrary \<Rightarrow> BrightChainMember \<Rightarrow> 'v \<Rightarrow> BrightChainMember list \<Rightarrow> nat option
     \<Rightarrow> sealing_error + QuorumDataRecord" where
  "quorumSeal lib agent' data' amongstMembers sharesRequired' =
     (case validateQuorumSealInputs amongstMembers sharesRequired' of
        Inl e \<Rightarrow> Inl e
      | Inr u \<Rightarrow>
          let sharesRequired'' = (case sharesRequired' of
                                   None \<Rightarrow> length amongstMembers | Some n \<Rightarrow> n);
              encrypted = symmetricEncryptJson lib data'
          in case reinitSecrets (length amongstMembers) of
               Inl e \<Rightarrow> Inl e
             | Inr bits \<Rightarrow>
                 (case secrets_share lib bits (Buffer_toString_hex (fst encrypted))
                         (length amongstMembers) sharesRequired'' of
                    Inl e \<Rightarrow> Inl e
                  | Inr keyShares \<Rightarrow>
                      (case encryptSharesForMembers lib keyShares amongstMembers of
                         Inl e \<Rightarrow> Inl e
                       | Inr encryptedSharesByMemberId' \<Rightarrow>
                           Inr \<lparr> agent = agent',
                                 memberIds = map (\<lambda>m. asShortHexGuid (member_id m))
                                               amongstMembers,
                                 sharesRequired = sharesRequired'',
                                 encryptedData = snd encrypted,
                                 encryptedSharesByMemberId = encryptedSharesByMemberId' \<rparr>)))"

text \<open>The loop of \<open>allMembersHavePrivateKey\<close> ends at the first member without a key.\<close>

definition allMembersHavePrivateKey :: "BrightChainMember list \<Rightarrow> bool" where
  "allMembersHavePrivateKey members = list_all privateKeyLoaded members"

text \<open>
  The loop of \<open>decryptShares\<close>. A \<open>Buffer\<close> is truthy, so \<open>EncryptedShareNotFound\<close> is the
  map having no entry; the members all have their private keys when the loop runs.
\<close>

fun decryptLoop ::
  "'v CryptoLibrary \<Rightarrow> QuorumDataRecord \<Rightarrow> BrightChainMember list
     \<Rightarrow> sealing_error + string list" where
  "decryptLoop lib document [] = Inr []"
| "decryptLoop lib document (member # rest) =
     (case map_of (encryptedSharesByMemberId document) (asShortHexGuid (member_id member)) of
        None \<Rightarrow> Inl (SealingError EncryptedShareNotFound)
      | Some encryptedKeyShareHex \<Rightarrow>
          (case privateKey member of
             None \<Rightarrow> Inl LibraryError
           | Some key \<Rightarrow>
               (case ecies_decryptWithHeader lib key encryptedKeyShareHex of
                  Inl e \<Rightarrow> Inl e
                | Inr decryptedKeyShare \<Rightarrow>
                    (case decryptLoop lib document rest of
                       Inl e \<Rightarrow> Inl e
                     | Inr shares \<Rightarrow> Inr (Buffer_toString_hex decryptedKeyShare # shares)))))"

definition decryptShares ::
  "'v CryptoLibrary \<Rightarrow> QuorumDataRecord \<Rightarrow> BrightChainMember list
     \<Rightarrow> sealing_error + string list" where
  "decryptShares lib document membersWithPrivateKey =
     (if length membersWithPrivateKey < sharesRequired document
      then Inl (SealingError NotEnoughMembersToUnlock)
      else if \<not> allMembersHavePrivateKey membersWithPrivateKey
      then Inl (SealingError MissingPrivateKeys)
      else decryptLoop lib document membersWithPrivateKey)"

text \<open>Whatever is thrown inside the \<open>try\<close> of \<open>quoromUnsealWithShares\<close> becomes \<open>FailedToSeal\<close>.\<close>

definition quoromUnsealWithShares ::
  "'v CryptoLibrary \<Rightarrow> QuorumDataRecord \<Rightarrow> string list \<Rightarrow> sealing_error + 'v" where
  "quoromUnsealWithShares lib document recoveredShares =
     (case (case reinitSecrets (length (encryptedSharesByMemberId document)) of
              Inl e \<Rightarrow> Inl e
            | Inr bits \<Rightarrow>
                (case secrets_combine lib bits recoveredShares of
                   Inl e \<Rightarrow> Inl e
                 | Inr combined \<Rightarrow>
                     symmetricDecryptJson lib (encryptedData document)
                       (Buffer_from_hex combined))) of
        Inl e \<Rightarrow> Inl (SealingError FailedToSeal)
      | Inr v \<Rightarrow> Inr v)"

definition quorumUnseal ::
  "'v CryptoLibrary \<Rightarrow> QuorumDataRecord \<Rightarrow> BrightChainMember list \<Rightarrow> sealing_error + 'v" where
  "quorumUnseal lib document membersWithPrivateKey =
     (if length membersWithPrivateKey < sharesRequired document
      then Inl (SealingError NotEnoughMembersToUnlock)
      else
        case decryptShares lib document membersWithPrivateKey of
          Inl e \<Rightarrow> Inl e
        | Inr shares \<Rightarrow> quoromUnsealWithShares lib document shares)"

section \<open>Concrete inputs\<close>

text \<open>
  A small store for concrete runs: blocks of 4 bytes, a toy checksum (the length and the
  sum of the bytes), an empty file system in which every write succeeds.
\<close>

definition example_checksum :: "Buffer \<Rightarrow> ChecksumBuffer" where
  "example_checksum d = [of_nat (length d), fold (+) d 0]"

definition example_store :: DiskBlockAsyncStore where
  "example_store = \<lparr> store_storePath = ''/store'', store_blockSize = 4,
       blockPath = (\<lambda>k. ''/store/'' @ map (\<lambda>b. char_of (unat b)) k) \<rparr>"

definition example_fs :: FileSystem where
  "example_fs = \<lparr> files = (\<lambda>p. None), writable = (\<lambda>p. True) \<rparr>"

definition example_block :: "nat \<Rightarrow> Buffer \<Rightarrow> Block" where
  "example_block n d = \<lparr> blockSize = n, data = d, dateCreated = Time 0,
       idChecksum = example_checksum d, blockType = BlockType_RawData,
       blockDataType = BlockDataType_RawData, canRead = True, canPersist = True \<rparr>"

definition example_handle :: "nat \<Rightarrow> string \<Rightarrow> BlockHandle" where
  "example_handle n p = \<lparr> handle_blockType = BlockType_Handle,
       handle_blockDataType = BlockDataType_RawData, handle_idChecksum = [],
       handle_blockSize = n, handle_canRead = True, handle_canPersist = True,
       handle_path = p \<rparr>"

definition example_files :: FileSystem where
  "example_files = \<lparr> files = (\<lambda>p. None)
       (''/a'' := Some \<lparr> content = [1, 2, 3, 4], birthtime = Time 0 \<rparr>,
        ''/b'' := Some \<lparr> content = [5, 6, 7, 8], birthtime = Time 0 \<rparr>,
        ''/c'' := Some \<lparr> content = [9, 10, 11, 12], birthtime = Time 0 \<rparr>,
        ''/short'' := Some \<lparr> content = [1, 2], birthtime = Time 0 \<rparr>),
     writable = (\<lambda>p. True) \<rparr>"

definition example_metadata :: "Date option \<Rightarrow> IBlockMetadata" where
  "example_metadata d = \<lparr> dest_size = 4, dest_type = BlockType_RawData,
       dest_dataType = BlockDataType_RawData, dest_lengthWithoutPadding = 4,
       dest_dateCreated = d \<rparr>"

text \<open>A heap with one array, at reference 0: three handles of block size 4.\<close>

definition example_heap :: ArrayHeap where
  "example_heap = (\<lambda>array. [])
     (0 := [example_handle 4 ''/a'', example_handle 4 ''/b'', example_handle 4 ''/c''])"

text \<open>
  A library for concrete runs, with no secrecy at all: the symmetric codec XORs with a
  constant under the fixed key [7, 7], the envelope prepends the one-byte public key, and
  share number \<open>i\<close> of a secret is the secret behind \<open>prefix\<close> and one hex digit for \<open>i\<close>;
  \<open>combine\<close> takes the secret out of the first share. Shares of a hex secret have an
  even number of hex digits under the prefix \<open>''0''\<close> and an odd number under the empty
  prefix.
\<close>

definition example_library :: "string \<Rightarrow> Buffer CryptoLibrary" where
  "example_library prefix =
     \<lparr> symmetricEncryptJson = (\<lambda>v. ([7, 7], map (\<lambda>x. x XOR 85) v)),
       symmetricDecryptJson = (\<lambda>ct key. if key = [7, 7] then Inr (map (\<lambda>x. x XOR 85) ct)
                                          else Inl LibraryError),
       ecies_encrypt = (\<lambda>pk m. pk @ m),
       ecies_decryptWithHeader = (\<lambda>sk c. if length sk = 1 \<and> take 1 c = sk then Inr (drop 1 c)
                                          else Inl LibraryError),
       secrets_share = (\<lambda>bits secret n t.
          if 2 \<le> t \<and> t \<le> n
          then Inr (map (\<lambda>i. prefix @ [hexChar (i mod 16)] @ secret) [0..<n])
          else Inl LibraryError),
       secrets_combine = (\<lambda>bits shares. case shares of [] \<Rightarrow> Inl LibraryError
                                          | s # rest \<Rightarrow> Inr (drop (Suc (length prefix)) s)) \<rparr>"

text \<open>
  A member with the id object \<open>object\<close>, the id text \<open>shortHex\<close>, the public key [k]
  and, loaded, the private key [k].
\<close>

definition example_member :: "nat \<Rightarrow> string \<Rightarrow> byte \<Rightarrow> BrightChainMember" where
  "example_member object shortHex k =
     \<lparr> member_id = \<lparr> guid_object = object, asShortHexGuid = shortHex \<rparr>,
       publicKey = [k], privateKey = Some [k] \<rparr>"

text \<open>
  What \<open>quorumSeal\<close> returns for the value [104, 105], the members a and b and the
  threshold 2 on the library of odd shares.
\<close>

definition example_document :: QuorumDataRecord where
  "example_document =
     \<lparr> agent = example_member 1 ''a'' 1, memberIds = [''a'', ''b''], sharesRequired = 2,
       encryptedData = [61, 60],
       encryptedSharesByMemberId = [(''a'', [1, 0, 112]), (''b'', [2, 16, 112])] \<rparr>"

section \<open>The block factory\<close>

lemma length_randomBytes: "length (randomBytes rng n) = n"
  by (simp add: randomBytes_def)

lemma Buffer_copy_prefix:
  assumes "length source \<le> length target"
  shows "Buffer_copy source target 0 0 (min (length source) (length target))
           = source @ drop (length source) target"
  using assms by (simp add: Buffer_copy_def Let_def min_def)

lemma from_final_buffer:
  assumes "length data' \<le> blockSize'"
  shows "Buffer_copy data' (randomBytes rng blockSize') 0 0 (min (length data') blockSize')
           = data' @ drop (length data') (randomBytes rng blockSize')"
  using Buffer_copy_prefix [of data' "randomBytes rng blockSize'"] assms
  by (simp add: length_randomBytes)

lemma nth_randomBytes: "j < n \<Longrightarrow> randomBytes rng n ! j = rng j"
  by (simp add: randomBytes_def)

lemma TestEncryptedBlock_new_Inr:
  assumes "TestEncryptedBlock_new now type dataType d c m r p = Inr b"
  shows "data b = d \<and> idChecksum b = c \<and> blockSize b = meta_size m \<and> metadata b = m"
  using assms by (auto simp: TestEncryptedBlock_new_def split: if_splits)

lemma TestEncryptedBlock_new_cases:
  "TestEncryptedBlock_new now type dataType d c m r p = Inl (BlockValidationError FutureCreationDate)
   \<or> (\<exists>b. TestEncryptedBlock_new now type dataType d c m r p = Inr b)"
  by (simp add: TestEncryptedBlock_new_def)

text \<open>
  What \<open>from\<close> does once the three length checks have passed: it compares the checksum of
  the final buffer with the caller's, and hands the buffer to the constructor.
\<close>

lemma from_after_length_checks:
  assumes "eciesOverheadLength \<le> length data'" and "length data' \<le> blockSize'"
    and "\<forall>a. actualDataLength = Some a \<longrightarrow> a \<le> int blockSize' - int eciesOverheadLength"
  shows "TestEncryptedBlock_from calculateChecksum rng now type dataType blockSize' data' checksum'
           creator dateCreated' actualDataLength canRead' canPersist' =
         (let finalData = data' @ drop (length data') (randomBytes rng blockSize');
              computedChecksum = calculateChecksum finalData
          in case checksum' of
               Some c \<Rightarrow>
                 if computedChecksum \<noteq> c then Inl (ChecksumMismatchError computedChecksum c)
                 else TestEncryptedBlock_new now type dataType finalData c
                        \<lparr> meta_size = blockSize', meta_type = type,
                          meta_dataType = BlockDataType_EncryptedData,
                          meta_lengthWithoutPadding =
                            (case actualDataLength of
                               None \<Rightarrow> int (length data') - int eciesOverheadLength
                             | Some a \<Rightarrow> a),
                          meta_encrypted = True, meta_creator = creator,
                          meta_dateCreated = (case dateCreated' of None \<Rightarrow> Time now | Some d \<Rightarrow> d) \<rparr>
                        canRead' canPersist'
             | None \<Rightarrow>
                 TestEncryptedBlock_new now type dataType finalData computedChecksum
                   \<lparr> meta_size = blockSize', meta_type = type,
                     meta_dataType = BlockDataType_EncryptedData,
                     meta_lengthWithoutPadding =
                       (case actualDataLength of
                          None \<Rightarrow> int (length data') - int eciesOverheadLength
                        | Some a \<Rightarrow> a),
                     meta_encrypted = True, meta_creator = creator,
                     meta_dateCreated = (case dateCreated' of None \<Rightarrow> Time now | Some d \<Rightarrow> d) \<rparr>
                   canRead' canPersist')"
proof -
  have len: "\<not> length data' < eciesOverheadLength" "\<not> length data' > blockSize'"
    using assms(1,2) by simp_all
  have act: "\<not> (case actualDataLength of None \<Rightarrow> False
                | Some a \<Rightarrow> a > int blockSize' - int eciesOverheadLength)"
    using assms(3) by (cases actualDataLength) auto
  show ?thesis
    unfolding TestEncryptedBlock_from_def
    using len act from_final_buffer [OF assms(2), of rng]
    by (cases checksum') (simp_all add: Let_def)
qed

lemma from_Inr_length_checks:
  assumes "TestEncryptedBlock_from calculateChecksum rng now type dataType blockSize' data' checksum'
             creator dateCreated' actualDataLength canRead' canPersist' = Inr b"
  shows "eciesOverheadLength \<le> length data' \<and> length data' \<le> blockSize'
         \<and> (\<forall>a. actualDataLength = Some a \<longrightarrow> a \<le> int blockSize' - int eciesOverheadLength)"
proof -
  have "\<not> length data' < eciesOverheadLength"
    using assms by (auto simp: TestEncryptedBlock_from_def)
  moreover have "\<not> length data' > blockSize'"
    using assms by (auto simp: TestEncryptedBlock_from_def split: if_splits)
  moreover have "\<not> (case actualDataLength of None \<Rightarrow> False
                | Some a \<Rightarrow> a > int blockSize' - int eciesOverheadLength)"
    using assms by (auto simp: TestEncryptedBlock_from_def split: if_splits)
  ultimately show ?thesis
    by (cases actualDataLength) auto
qed

text \<open>
  Claim C1. Every block that \<open>from\<close> returns for (blockSize, data) has a data buffer of
  exactly blockSize bytes; its first \<open>data.length\<close> bytes are the supplied data; the
  bytes from \<open>data.length\<close> up to blockSize are those of the random buffer at the same
  offsets; and the stored \<open>idChecksum\<close> is the checksum of that final buffer.
\<close>

theorem C1_from_block:
  assumes "TestEncryptedBlock_from calculateChecksum rng now type dataType blockSize' data' checksum'
             creator dateCreated' actualDataLength canRead' canPersist' = Inr b"
  shows "length (data b) = blockSize'
         \<and> blockSize b = blockSize'
         \<and> take (length data') (data b) = data'
         \<and> drop (length data') (data b) = drop (length data') (randomBytes rng blockSize')
         \<and> (\<forall>j. length data' \<le> j \<and> j < blockSize' \<longrightarrow> data b ! j = rng j)
         \<and> idChecksum b = calculateChecksum (data b)"
proof -
  let ?final = "data' @ drop (length data') (randomBytes rng blockSize')"
  note chk = from_Inr_length_checks [OF assms]
  have eq: "TestEncryptedBlock_from calculateChecksum rng now type dataType blockSize' data'
              checksum' creator dateCreated' actualDataLength canRead' canPersist' = Inr b"
    by (rule assms)
  have fields: "data b = ?final \<and> idChecksum b = calculateChecksum ?final
                \<and> blockSize b = blockSize'"
  proof (cases checksum')
    case None
    with eq chk show ?thesis
      by (auto simp: from_after_length_checks Let_def dest!: TestEncryptedBlock_new_Inr)
  next
    case (Some c)
    with eq chk show ?thesis
      by (auto simp: from_after_length_checks Let_def split: if_splits
               dest!: TestEncryptedBlock_new_Inr)
  qed
  have len: "length ?final = blockSize'"
    using chk by (simp add: length_randomBytes)
  have tail: "\<forall>j. length data' \<le> j \<and> j < blockSize' \<longrightarrow> ?final ! j = rng j"
    using chk by (auto simp: nth_append length_randomBytes nth_randomBytes)
  show ?thesis
    using fields len tail by simp
qed

theorem C1_from_block_witness:
  "\<exists>b. TestEncryptedBlock_from (take 2) (\<lambda>i. 255) 0 BlockType_EncryptedOwnedDataBlock
          BlockDataType_EncryptedData 100 (replicate 97 4) None None None None True True = Inr b
       \<and> length (data b) = 100
       \<and> take 97 (data b) = replicate 97 4
       \<and> data b ! 98 = 255
       \<and> idChecksum b = take 2 (data b)"
proof -
  have "\<exists>b. TestEncryptedBlock_from (take 2) (\<lambda>i. 255) 0 BlockType_EncryptedOwnedDataBlock
          BlockDataType_EncryptedData 100 (replicate 97 4) None None None None True True = Inr b"
    by (simp add: TestEncryptedBlock_from_def TestEncryptedBlock_new_def eciesOverheadLength_def
          Let_def)
  then obtain b where b: "TestEncryptedBlock_from (take 2) (\<lambda>i. 255) 0
          BlockType_EncryptedOwnedDataBlock BlockDataType_EncryptedData 100 (replicate 97 4)
          None None None None True True = Inr b" ..
  from C1_from_block [OF b] b show ?thesis
    by (intro exI [of _ b]) simp
qed

text \<open>
  Claim C5. When the caller supplies a checksum that differs from the checksum of the
  final (padded) buffer, \<open>from\<close> fails with a \<open>ChecksumMismatchError\<close> whose \<open>expected\<close> is
  the caller's checksum and whose \<open>checksum\<close> is the one computed over the final buffer
  (the supplied data followed by the random bytes at the remaining offsets). The length
  checks come first, so the input is one that passes them.
\<close>

theorem C5_from_checksum_mismatch:
  assumes "eciesOverheadLength \<le> length data'" and "length data' \<le> blockSize'"
    and "\<forall>a. actualDataLength = Some a \<longrightarrow> a \<le> int blockSize' - int eciesOverheadLength"
    and "c \<noteq> calculateChecksum (data' @ drop (length data') (randomBytes rng blockSize'))"
  shows "\<exists>e. TestEncryptedBlock_from calculateChecksum rng now type dataType blockSize' data'
                (Some c) creator dateCreated' actualDataLength canRead' canPersist' = Inl e
             \<and> e = ChecksumMismatchError
                     (calculateChecksum (data' @ drop (length data') (randomBytes rng blockSize'))) c
             \<and> expected e = c
             \<and> checksum e
                 = calculateChecksum (data' @ drop (length data') (randomBytes rng blockSize'))"
  using assms(4) by (simp add: from_after_length_checks [OF assms(1-3)] Let_def)

theorem C5_from_checksum_mismatch_witness:
  "\<exists>e. TestEncryptedBlock_from (take 2) (\<lambda>i. 255) 0 BlockType_EncryptedOwnedDataBlock
          BlockDataType_EncryptedData 100 (replicate 97 4) (Some [5, 4]) None None (Some 3)
          True True = Inl e
       \<and> expected e = [5, 4] \<and> checksum e = [4, 4]"
proof -
  have 1: "eciesOverheadLength \<le> length (replicate 97 (4 :: byte))"
    by (simp add: eciesOverheadLength_def)
  have 2: "length (replicate 97 (4 :: byte)) \<le> 100"
    by simp
  have 3: "\<forall>a. Some (3 :: int) = Some a \<longrightarrow> a \<le> int 100 - int eciesOverheadLength"
    by (simp add: eciesOverheadLength_def)
  have 4: "[5, 4] \<noteq> take 2 (replicate 97 (4 :: byte)
             @ drop (length (replicate 97 (4 :: byte))) (randomBytes (\<lambda>i. 255) 100))"
    by (simp add: numeral_2_eq_2)
  have 5: "take 2 (replicate 97 (4 :: byte)
             @ drop (length (replicate 97 (4 :: byte))) (randomBytes (\<lambda>i. 255) 100)) = [4, 4]"
    by (simp add: numeral_2_eq_2)
  from C5_from_checksum_mismatch [where calculateChecksum = "take 2" and rng = "\<lambda>i. 255"
      and data' = "replicate 97 4" and blockSize' = 100 and c = "[5, 4]"
      and actualDataLength = "Some 3" and now = 0 and type = BlockType_EncryptedOwnedDataBlock
      and dataType = BlockDataType_EncryptedData and creator = None and dateCreated' = None
      and canRead' = True and canPersist' = True, OF 1 2 3 4] 5
  show ?thesis by simp
qed

text \<open>
  Claim C6. \<open>from\<close> validates the lengths in this order and surfaces the first failure:
  \<open>data.length < eciesOverheadLength\<close> (97) gives \<open>DataLengthTooShort\<close>; otherwise
  \<open>data.length > blockSize\<close> gives \<open>DataLengthExceedsCapacity\<close>; otherwise a provided
  \<open>actualDataLength > blockSize - eciesOverheadLength\<close> gives \<open>DataLengthExceedsCapacity\<close>;
  and an input that passes the three checks is not rejected with either length error.
\<close>

theorem C6_from_length_checks:
  "eciesOverheadLength = 97
   \<and> (length data' < eciesOverheadLength \<longrightarrow>
        TestEncryptedBlock_from calculateChecksum rng now type dataType blockSize' data' checksum'
          creator dateCreated' actualDataLength canRead' canPersist'
        = Inl (BlockValidationError DataLengthTooShort))
   \<and> (\<not> length data' < eciesOverheadLength \<and> length data' > blockSize' \<longrightarrow>
        TestEncryptedBlock_from calculateChecksum rng now type dataType blockSize' data' checksum'
          creator dateCreated' actualDataLength canRead' canPersist'
        = Inl (BlockValidationError DataLengthExceedsCapacity))
   \<and> (\<not> length data' < eciesOverheadLength \<and> \<not> length data' > blockSize'
        \<and> (\<exists>a. actualDataLength = Some a \<and> a > int blockSize' - int eciesOverheadLength) \<longrightarrow>
        TestEncryptedBlock_from calculateChecksum rng now type dataType blockSize' data' checksum'
          creator dateCreated' actualDataLength canRead' canPersist'
        = Inl (BlockValidationError DataLengthExceedsCapacity))
   \<and> (\<not> length data' < eciesOverheadLength \<and> \<not> length data' > blockSize'
        \<and> \<not> (\<exists>a. actualDataLength = Some a \<and> a > int blockSize' - int eciesOverheadLength) \<longrightarrow>
        TestEncryptedBlock_from calculateChecksum rng now type dataType blockSize' data' checksum'
          creator dateCreated' actualDataLength canRead' canPersist'
        \<noteq> Inl (BlockValidationError DataLengthTooShort)
        \<and> TestEncryptedBlock_from calculateChecksum rng now type dataType blockSize' data' checksum'
          creator dateCreated' actualDataLength canRead' canPersist'
        \<noteq> Inl (BlockValidationError DataLengthExceedsCapacity))"
proof (intro conjI impI)
  show "eciesOverheadLength = 97"
    by (simp add: eciesOverheadLength_def)
next
  assume "length data' < eciesOverheadLength"
  then show "TestEncryptedBlock_from calculateChecksum rng now type dataType blockSize' data'
      checksum' creator dateCreated' actualDataLength canRead' canPersist'
      = Inl (BlockValidationError DataLengthTooShort)"
    by (simp add: TestEncryptedBlock_from_def)
next
  assume "\<not> length data' < eciesOverheadLength \<and> length data' > blockSize'"
  then show "TestEncryptedBlock_from calculateChecksum rng now type dataType blockSize' data'
      checksum' creator dateCreated' actualDataLength canRead' canPersist'
      = Inl (BlockValidationError DataLengthExceedsCapacity)"
    by (simp add: TestEncryptedBlock_from_def)
next
  assume "\<not> length data' < eciesOverheadLength \<and> \<not> length data' > blockSize'
        \<and> (\<exists>a. actualDataLength = Some a \<and> a > int blockSize' - int eciesOverheadLength)"
  then show "TestEncryptedBlock_from calculateChecksum rng now type dataType blockSize' data'
      checksum' creator dateCreated' actualDataLength canRead' canPersist'
      = Inl (BlockValidationError DataLengthExceedsCapacity)"
    by (auto simp: TestEncryptedBlock_from_def)
next
  assume a: "\<not> length data' < eciesOverheadLength \<and> \<not> length data' > blockSize'
        \<and> \<not> (\<exists>a. actualDataLength = Some a \<and> a > int blockSize' - int eciesOverheadLength)"
  then have pass: "eciesOverheadLength \<le> length data'" "length data' \<le> blockSize'"
      "\<forall>a. actualDataLength = Some a \<longrightarrow> a \<le> int blockSize' - int eciesOverheadLength"
    by auto
  have new: "\<And>d c m. TestEncryptedBlock_new now type dataType d c m canRead' canPersist'
               \<noteq> Inl (BlockValidationError DataLengthTooShort)
             \<and> TestEncryptedBlock_new now type dataType d c m canRead' canPersist'
               \<noteq> Inl (BlockValidationError DataLengthExceedsCapacity)"
    by (simp add: TestEncryptedBlock_new_def)
  show "TestEncryptedBlock_from calculateChecksum rng now type dataType blockSize' data'
      checksum' creator dateCreated' actualDataLength canRead' canPersist'
      \<noteq> Inl (BlockValidationError DataLengthTooShort)"
    using new by (cases checksum') (simp_all add: from_after_length_checks [OF pass] Let_def)
  show "TestEncryptedBlock_from calculateChecksum rng now type dataType blockSize' data'
      checksum' creator dateCreated' actualDataLength canRead' canPersist'
      \<noteq> Inl (BlockValidationError DataLengthExceedsCapacity)"
    using new by (cases checksum') (simp_all add: from_after_length_checks [OF pass] Let_def)
qed

theorem C6_from_length_checks_witness:
  "TestEncryptedBlock_from (take 2) (\<lambda>i. 255) 0 BlockType_EncryptedOwnedDataBlock
     BlockDataType_EncryptedData 100 (replicate 96 4) None None None None True True
     = Inl (BlockValidationError DataLengthTooShort)
   \<and> TestEncryptedBlock_from (take 2) (\<lambda>i. 255) 0 BlockType_EncryptedOwnedDataBlock
     BlockDataType_EncryptedData 100 (replicate 101 4) None None None None True True
     = Inl (BlockValidationError DataLengthExceedsCapacity)
   \<and> TestEncryptedBlock_from (take 2) (\<lambda>i. 255) 0 BlockType_EncryptedOwnedDataBlock
     BlockDataType_EncryptedData 100 (replicate 97 4) None None None (Some 4) True True
     = Inl (BlockValidationError DataLengthExceedsCapacity)
   \<and> TestEncryptedBlock_from (take 2) (\<lambda>i. 255) 0 BlockType_EncryptedOwnedDataBlock
     BlockDataType_EncryptedData 100 (replicate 97 4) None None None (Some 3) True True
     \<noteq> Inl (BlockValidationError DataLengthExceedsCapacity)"
proof -
  note t = C6_from_length_checks [where calculateChecksum = "take 2" and rng = "\<lambda>i. 255"
      and now = 0 and type = BlockType_EncryptedOwnedDataBlock
      and dataType = BlockDataType_EncryptedData and blockSize' = 100 and checksum' = None
      and creator = None and dateCreated' = None and canRead' = True and canPersist' = True]
  have 1: "TestEncryptedBlock_from (take 2) (\<lambda>i. 255) 0 BlockType_EncryptedOwnedDataBlock
     BlockDataType_EncryptedData 100 (replicate 96 4) None None None None True True
     = Inl (BlockValidationError DataLengthTooShort)"
    using t [where data' = "replicate 96 4" and actualDataLength = None]
    by (simp add: eciesOverheadLength_def)
  have 2: "TestEncryptedBlock_from (take 2) (\<lambda>i. 255) 0 BlockType_EncryptedOwnedDataBlock
     BlockDataType_EncryptedData 100 (replicate 101 4) None None None None True True
     = Inl (BlockValidationError DataLengthExceedsCapacity)"
    using t [where data' = "replicate 101 4" and actualDataLength = None]
    by (simp add: eciesOverheadLength_def)
  have 3: "TestEncryptedBlock_from (take 2) (\<lambda>i. 255) 0 BlockType_EncryptedOwnedDataBlock
     BlockDataType_EncryptedData 100 (replicate 97 4) None None None (Some 4) True True
     = Inl (BlockValidationError DataLengthExceedsCapacity)"
    using t [where data' = "replicate 97 4" and actualDataLength = "Some 4"]
    by (simp add: eciesOverheadLength_def)
  have 4: "TestEncryptedBlock_from (take 2) (\<lambda>i. 255) 0 BlockType_EncryptedOwnedDataBlock
     BlockDataType_EncryptedData 100 (replicate 97 4) None None None (Some 3) True True
     \<noteq> Inl (BlockValidationError DataLengthExceedsCapacity)"
    using t [where data' = "replicate 97 4" and actualDataLength = "Some 3"]
    by (simp add: eciesOverheadLength_def)
  from 1 2 3 4 show ?thesis by blast
qed

section \<open>The disk block store\<close>

lemma writeFileSync_Some:
  assumes "writeFileSync now fs path d = Some fs1"
  shows "files fs1 path = Some \<lparr> content = d,
            birthtime = (case files fs path of None \<Rightarrow> Time now | Some f \<Rightarrow> birthtime f) \<rparr>
         \<and> (\<forall>q. q \<noteq> path \<longrightarrow> files fs1 q = files fs q)
         \<and> writable fs1 = writable fs"
  using assms by (auto simp: writeFileSync_def split: if_splits)

lemma setData_Inr:
  assumes "setData calculateChecksum now fs store block = (Inr u, fs1)"
  shows "blockSize block = store_blockSize store
         \<and> files fs (blockPath store (idChecksum block)) = None
         \<and> validate calculateChecksum now block = Inr ()
         \<and> writeFileSync now fs (blockPath store (idChecksum block)) (data block) = Some fs1"
  using assms
  by (auto simp: setData_def existsSync_def split: if_splits sum.splits option.splits)

lemma setData_Inl:
  assumes "setData calculateChecksum now fs store block = (Inl e, fs1)"
  shows "fs1 = fs"
  using assms
  by (auto simp: setData_def split: if_splits sum.splits option.splits)

text \<open>
  Claim C2. \<open>setData(block)\<close> runs three checks in order and reports the first that
  fails: \<open>BlockSizeMismatch\<close> when the block's size differs from the store's,
  \<open>BlockPathAlreadyExists\<close> when a file already exists at the block's path,
  \<open>BlockValidationFailed\<close> when \<open>validate()\<close> throws. A failure leaves the file system
  as it was; a file changes only when the three checks pass, and then it is the file at
  the block's path, absent before, that receives the block's data. Hence after a
  successful \<open>setData\<close> every further \<open>setData\<close> of a block with the same key fails and
  writes nothing (with \<open>BlockPathAlreadyExists\<close> when the block has the store's size).
\<close>

theorem C2_setData_checks:
  "(blockSize block \<noteq> store_blockSize store \<longrightarrow>
      setData calculateChecksum now fs store block = (Inl (StoreError BlockSizeMismatch), fs))
   \<and> (blockSize block = store_blockSize store
        \<and> existsSync fs (blockPath store (idChecksum block)) \<longrightarrow>
      setData calculateChecksum now fs store block = (Inl (StoreError BlockPathAlreadyExists), fs))
   \<and> (blockSize block = store_blockSize store
        \<and> \<not> existsSync fs (blockPath store (idChecksum block))
        \<and> (\<exists>e. validate calculateChecksum now block = Inl e) \<longrightarrow>
      setData calculateChecksum now fs store block = (Inl (StoreError BlockValidationFailed), fs))
   \<and> (\<forall>e fs1. setData calculateChecksum now fs store block = (Inl e, fs1) \<longrightarrow> fs1 = fs)
   \<and> (\<forall>r fs1 p. setData calculateChecksum now fs store block = (r, fs1)
        \<and> files fs1 p \<noteq> files fs p \<longrightarrow>
          r = Inr ()
          \<and> blockSize block = store_blockSize store
          \<and> \<not> existsSync fs (blockPath store (idChecksum block))
          \<and> validate calculateChecksum now block = Inr ()
          \<and> p = blockPath store (idChecksum block)
          \<and> map_option content (files fs1 p) = Some (data block))
   \<and> (\<forall>fs1 now2 block2. setData calculateChecksum now fs store block = (Inr (), fs1)
        \<and> idChecksum block2 = idChecksum block \<longrightarrow>
          (\<exists>e. setData calculateChecksum now2 fs1 store block2 = (Inl e, fs1))
          \<and> (blockSize block2 = store_blockSize store \<longrightarrow>
               setData calculateChecksum now2 fs1 store block2
               = (Inl (StoreError BlockPathAlreadyExists), fs1)))"
proof (intro conjI allI impI)
  assume "blockSize block \<noteq> store_blockSize store"
  then show "setData calculateChecksum now fs store block = (Inl (StoreError BlockSizeMismatch), fs)"
    by (simp add: setData_def)
next
  assume "blockSize block = store_blockSize store
          \<and> existsSync fs (blockPath store (idChecksum block))"
  then show "setData calculateChecksum now fs store block
             = (Inl (StoreError BlockPathAlreadyExists), fs)"
    by (simp add: setData_def)
next
  assume "blockSize block = store_blockSize store
          \<and> \<not> existsSync fs (blockPath store (idChecksum block))
          \<and> (\<exists>e. validate calculateChecksum now block = Inl e)"
  then show "setData calculateChecksum now fs store block
             = (Inl (StoreError BlockValidationFailed), fs)"
    by (auto simp: setData_def)
next
  fix e fs1
  assume "setData calculateChecksum now fs store block = (Inl e, fs1)"
  then show "fs1 = fs" by (rule setData_Inl)
next
  fix r fs1 p
  assume a: "setData calculateChecksum now fs store block = (r, fs1) \<and> files fs1 p \<noteq> files fs p"
  have r: "r = Inr ()"
  proof (cases r)
    case (Inl e)
    with a have "fs1 = fs" using setData_Inl by blast
    with a show ?thesis by simp
  next
    case (Inr u)
    then show ?thesis by simp
  qed
  with a have ok: "setData calculateChecksum now fs store block = (Inr (), fs1)" by simp
  note s = setData_Inr [OF ok]
  note w = writeFileSync_Some [OF s [THEN conjunct2, THEN conjunct2, THEN conjunct2]]
  from w a have p: "p = blockPath store (idChecksum block)" by metis
  show "r = Inr ()" by (rule r)
  show "blockSize block = store_blockSize store" using s by simp
  show "\<not> existsSync fs (blockPath store (idChecksum block))"
    using s by (simp add: existsSync_def)
  show "validate calculateChecksum now block = Inr ()" using s by simp
  show "p = blockPath store (idChecksum block)" by (rule p)
  show "map_option content (files fs1 p) = Some (data block)" using w p by simp
next
  fix fs1 now2 and block2 :: Block
  assume a: "setData calculateChecksum now fs store block = (Inr (), fs1)
             \<and> idChecksum block2 = idChecksum block"
  then have ok: "setData calculateChecksum now fs store block = (Inr (), fs1)" by simp
  note s = setData_Inr [OF ok]
  note w = writeFileSync_Some [OF s [THEN conjunct2, THEN conjunct2, THEN conjunct2]]
  from w a have ex: "existsSync fs1 (blockPath store (idChecksum block2))"
    by (simp add: existsSync_def)
  then show "\<exists>e. setData calculateChecksum now2 fs1 store block2 = (Inl e, fs1)"
    by (simp add: setData_def)
next
  fix fs1 now2 and block2 :: Block
  assume a: "setData calculateChecksum now fs store block = (Inr (), fs1)
             \<and> idChecksum block2 = idChecksum block"
    and b: "blockSize block2 = store_blockSize store"
  from a have ok: "setData calculateChecksum now fs store block = (Inr (), fs1)" by simp
  note s = setData_Inr [OF ok]
  note w = writeFileSync_Some [OF s [THEN conjunct2, THEN conjunct2, THEN conjunct2]]
  from w a have ex: "existsSync fs1 (blockPath store (idChecksum block2))"
    by (simp add: existsSync_def)
  show "setData calculateChecksum now2 fs1 store block2
        = (Inl (StoreError BlockPathAlreadyExists), fs1)"
    using ex b by (simp add: setData_def)
qed

lemmas example_defs =
  example_checksum_def example_store_def example_fs_def example_block_def
  setData_def getData_def has_def existsSync_def validate_def writeFileSync_def
  RawDataBlock_new_def

theorem C2_setData_checks_witness:
  "setData example_checksum 0 example_fs example_store (example_block 8 [1, 2, 3, 4])
     = (Inl (StoreError BlockSizeMismatch), example_fs)
   \<and> setData example_checksum 0 example_fs example_store
       ((example_block 4 [1, 2, 3, 4]) \<lparr> idChecksum := [0, 0] \<rparr>)
     = (Inl (StoreError BlockValidationFailed), example_fs)
   \<and> fst (setData example_checksum 0 example_fs example_store (example_block 4 [1, 2, 3, 4]))
     = Inr ()
   \<and> fst (setData example_checksum 5
            (snd (setData example_checksum 0 example_fs example_store
                    (example_block 4 [1, 2, 3, 4])))
            example_store (example_block 4 [1, 2, 3, 4]))
     = Inl (StoreError BlockPathAlreadyExists)"
proof -
  have size8: "blockSize (example_block 8 [1, 2, 3, 4]) \<noteq> store_blockSize example_store"
    by (simp add: example_store_def example_block_def)
  from C2_setData_checks [of "example_block 8 [1, 2, 3, 4]" example_store example_checksum 0
      example_fs] size8
  have 1: "setData example_checksum 0 example_fs example_store (example_block 8 [1, 2, 3, 4])
     = (Inl (StoreError BlockSizeMismatch), example_fs)"
    by blast
  have bad: "blockSize ((example_block 4 [1, 2, 3, 4]) \<lparr> idChecksum := [0, 0] \<rparr>)
               = store_blockSize example_store
             \<and> \<not> existsSync example_fs (blockPath example_store
                     (idChecksum ((example_block 4 [1, 2, 3, 4]) \<lparr> idChecksum := [0, 0] \<rparr>)))
             \<and> (\<exists>e. validate example_checksum 0
                     ((example_block 4 [1, 2, 3, 4]) \<lparr> idChecksum := [0, 0] \<rparr>) = Inl e)"
    by (simp add: example_checksum_def example_store_def example_fs_def example_block_def
          existsSync_def validate_def)
  from C2_setData_checks [of "(example_block 4 [1, 2, 3, 4]) \<lparr> idChecksum := [0, 0] \<rparr>"
      example_store example_checksum 0 example_fs] bad
  have 2: "setData example_checksum 0 example_fs example_store
       ((example_block 4 [1, 2, 3, 4]) \<lparr> idChecksum := [0, 0] \<rparr>)
     = (Inl (StoreError BlockValidationFailed), example_fs)"
    by blast
  have 3: "fst (setData example_checksum 0 example_fs example_store
             (example_block 4 [1, 2, 3, 4])) = Inr ()"
    by (simp add: example_defs)
  obtain r fs1 where rf: "setData example_checksum 0 example_fs example_store
      (example_block 4 [1, 2, 3, 4]) = (r, fs1)"
    by (cases "setData example_checksum 0 example_fs example_store (example_block 4 [1, 2, 3, 4])")
  with 3 have ok: "setData example_checksum 0 example_fs example_store
      (example_block 4 [1, 2, 3, 4]) = (Inr (), fs1)"
    by simp
  have size4: "blockSize (example_block 4 [1, 2, 3, 4]) = store_blockSize example_store"
    by (simp add: example_store_def example_block_def)
  from C2_setData_checks [of "example_block 4 [1, 2, 3, 4]" example_store example_checksum 0
      example_fs] ok size4
  have "setData example_checksum 5 fs1 example_store (example_block 4 [1, 2, 3, 4])
     = (Inl (StoreError BlockPathAlreadyExists), fs1)"
    by blast
  with ok have 4: "fst (setData example_checksum 5
            (snd (setData example_checksum 0 example_fs example_store
                    (example_block 4 [1, 2, 3, 4])))
            example_store (example_block 4 [1, 2, 3, 4]))
     = Inl (StoreError BlockPathAlreadyExists)"
    by simp
  from 1 2 3 4 show ?thesis by blast
qed



section \<open>XOR tuples\<close>

lemma xor_round:
  assumes "length current = length result"
  shows "map (\<lambda>j. (result ! j) XOR (current ! j)) [0..<length result] = map2 (XOR) result current"
  using assms by (intro nth_equalityI) simp_all

lemma xorLoop_Inr:
  "xorLoop r xs = Inr out \<Longrightarrow> length out = length r \<and> list_all (\<lambda>x. length x = length r) xs"
proof (induction xs arbitrary: r)
  case Nil
  then show ?case by simp
next
  case (Cons x xs)
  let ?r = "map (\<lambda>j. (r ! j) XOR (x ! j)) [0..<length r]"
  from Cons.prems have len: "length x = length r"
    by (simp split: if_splits)
  with Cons.prems have "xorLoop ?r xs = Inr out"
    by simp
  from Cons.IH [OF this] have "length out = length r \<and> list_all (\<lambda>x. length x = length r) xs"
    by simp
  with len show ?case by simp
qed

lemma xorLoop_mismatch:
  "list_ex (\<lambda>x. length x \<noteq> length r) xs \<Longrightarrow> xorLoop r xs = Inl (HandleTupleError BlockSizesMustMatch)"
proof (induction xs arbitrary: r)
  case Nil
  then show ?case by simp
next
  case (Cons x xs)
  then show ?case by auto
qed

lemma xorLoop_cases:
  "xorLoop r xs = Inl (HandleTupleError BlockSizesMustMatch) \<or> (\<exists>out. xorLoop r xs = Inr out)"
  by (induction xs arbitrary: r) auto

lemma xor3:
  fixes a b c :: Buffer
  assumes "length a = length b" "length b = length c"
  shows "xorBlockData [a, b, c] = Inr (map2 (XOR) (map2 (XOR) a b) c)"
proof -
  have 1: "map (\<lambda>j. (a ! j) XOR (b ! j)) [0..<length a] = map2 (XOR) a b"
    by (rule xor_round) (simp add: assms)
  have 2: "map (\<lambda>j. (map2 (XOR) a b ! j) XOR (c ! j)) [0..<length (map2 (XOR) a b)]
           = map2 (XOR) (map2 (XOR) a b) c"
    by (rule xor_round) (simp add: assms)
  have "xorBlockData [a, b, c] = xorLoop (map2 (XOR) a b) [c]"
    unfolding xorBlockData_def list.case xorLoop.simps 1 using assms by simp
  also have "\<dots> = Inr (map2 (XOR) (map2 (XOR) a b) c)"
    unfolding xorLoop.simps 2 using assms by simp
  finally show ?thesis .
qed

lemma xor_cancel:
  fixes a b c :: Buffer
  assumes "length a = length b" "length b = length c"
  shows "map2 (XOR) (map2 (XOR) (map2 (XOR) (map2 (XOR) a b) c) b) c = a"
  using assms by (intro nth_equalityI) (simp_all add: xor.assoc xor.left_commute)


lemma xorBlockData_Inr:
  assumes "xorBlockData blockData = Inr out"
  shows "blockData \<noteq> [] \<and> list_all (\<lambda>d. length d = length out) blockData"
proof (cases blockData)
  case Nil
  with assms show ?thesis by (simp add: xorBlockData_def)
next
  case (Cons first rest)
  with assms have "xorLoop first rest = Inr out"
    by (simp add: xorBlockData_def)
  from xorLoop_Inr [OF this] Cons show ?thesis by simp
qed

lemma xorBlockData_mismatch:
  assumes "list_ex (\<lambda>d. length d \<noteq> length (hd blockData)) blockData"
  shows "xorBlockData blockData = Inl (HandleTupleError BlockSizesMustMatch)"
proof (cases blockData)
  case Nil
  with assms show ?thesis by simp
next
  case (Cons first rest)
  with assms have "list_ex (\<lambda>d. length d \<noteq> length first) rest"
    by simp
  from xorLoop_mismatch [OF this] Cons show ?thesis
    by (simp add: xorBlockData_def)
qed

lemma xorBlockData_Inl:
  assumes "xorBlockData blockData = Inl e"
  shows "e = TypeError \<or> e = HandleTupleError BlockSizesMustMatch"
proof (cases blockData)
  case Nil
  with assms show ?thesis by (simp add: xorBlockData_def)
next
  case (Cons first rest)
  with assms xorLoop_cases [of first rest] show ?thesis
    by (auto simp: xorBlockData_def)
qed

lemma loadBlockData_Inl:
  "loadBlockData fs hs = Inl e \<Longrightarrow> \<exists>k. e = FailedToLoadBlock k"
  by (induction hs arbitrary: e) (auto split: option.splits sum.splits)

lemma loadBlockData_Nil:
  "loadBlockData fs hs = Inr [] \<Longrightarrow> hs = []"
  by (cases hs) (auto split: option.splits sum.splits)

lemma RawDataBlock_new_Inr:
  assumes "RawDataBlock_new now n d dc c t dt r p = Inr b"
  shows "b = \<lparr> blockSize = n, data = d, dateCreated = dc, idChecksum = c, blockType = t,
               blockDataType = dt, canRead = r, canPersist = p \<rparr>"
  using assms by (simp add: RawDataBlock_new_def split: if_splits)

lemma RawDataBlock_new_Inl:
  assumes "RawDataBlock_new now n d dc c t dt r p = Inl e"
  shows "e = BlockValidationError FutureCreationDate"
  using assms by (simp add: RawDataBlock_new_def split: if_splits)

lemma BlockHandleTuple_xor_block_Inr:
  assumes "BlockHandleTuple_xor_block calculateChecksum now fs tuple destBlockMetadata
             = Inr (block, c)"
  shows "\<exists>blockData result.
           loadBlockData fs (handles tuple) = Inr blockData
           \<and> xorBlockData blockData = Inr result
           \<and> data block = result \<and> idChecksum block = c \<and> c = calculateChecksum result
           \<and> blockSize block = handle_blockSize (hd (handles tuple))
           \<and> dateCreated block
               = (case dest_dateCreated destBlockMetadata of Some d \<Rightarrow> d | None \<Rightarrow> Time now)"
  using assms
  by (auto simp: BlockHandleTuple_xor_block_def Let_def dest!: RawDataBlock_new_Inr
           split: if_splits sum.splits option.splits)

lemma BlockHandleTuple_xor_block_Inl:
  assumes "BlockHandleTuple_xor_block calculateChecksum now fs tuple destBlockMetadata = Inl e"
    and "handles tuple \<noteq> []"
  shows "e \<noteq> HandleTupleError NoBlocksToXor"
  using assms
  by (auto simp: BlockHandleTuple_xor_block_def Let_def
           dest!: RawDataBlock_new_Inl loadBlockData_Inl xorBlockData_Inl
           split: if_splits sum.splits)

lemma BlockHandleTuple_xor_Inl:
  assumes "BlockHandleTuple_xor calculateChecksum now fs tuple store destBlockMetadata = (Inl e, fs1)"
    and "handles tuple \<noteq> []"
  shows "e \<noteq> HandleTupleError NoBlocksToXor"
  using assms BlockHandleTuple_xor_block_Inl [of calculateChecksum now fs tuple destBlockMetadata]
  by (auto simp: BlockHandleTuple_xor_def split: sum.splits prod.splits)


text \<open>
  Claim C4. For byte buffers a, b, c of equal length the XOR of the tuple's loop gives a
  buffer r of that length, and the XOR of r, b and c gives a again; whenever the XOR
  returns, every operand has the result's length; if the loaded data of some handle
  differs in length from the first handle's, \<open>BlockHandleTuple.xor\<close> fails with
  \<open>BlockSizesMustMatch\<close> and writes nothing; and when \<open>BlockHandleTuple.xor\<close> returns a
  handle, the file of that handle holds the XOR of the loaded data.
\<close>

theorem C4_tuple_xor:
  fixes a b c :: Buffer
  shows
  "(length a = length b \<and> length b = length c \<longrightarrow>
      (\<exists>r. xorBlockData [a, b, c] = Inr r \<and> length r = length a
           \<and> xorBlockData [r, b, c] = Inr a))
   \<and> (\<forall>r. xorBlockData blockData = Inr r \<longrightarrow> list_all (\<lambda>d. length d = length r) blockData)
   \<and> (\<forall>loaded. loadBlockData fs (handles tuple) = Inr loaded
        \<and> list_ex (\<lambda>d. length d \<noteq> length (hd loaded)) loaded \<longrightarrow>
      BlockHandleTuple_xor calculateChecksum now fs tuple store destBlockMetadata
      = (Inl (HandleTupleError BlockSizesMustMatch), fs))
   \<and> (\<forall>h fs1. BlockHandleTuple_xor calculateChecksum now fs tuple store destBlockMetadata
                = (Inr h, fs1) \<longrightarrow>
      (\<exists>loaded result. loadBlockData fs (handles tuple) = Inr loaded
          \<and> xorBlockData loaded = Inr result
          \<and> list_all (\<lambda>d. length d = length result) loaded
          \<and> BlockHandle_data fs1 h = Inr result))"
proof (intro conjI allI impI)
  assume eq: "length a = length b \<and> length b = length c"
  let ?r = "map2 (XOR) (map2 (XOR) a b) c"
  have r: "xorBlockData [a, b, c] = Inr ?r"
    using eq by (simp add: xor3)
  have len: "length ?r = length a"
    using eq by simp
  have "xorBlockData [?r, b, c] = Inr (map2 (XOR) (map2 (XOR) ?r b) c)"
    using eq by (intro xor3) simp_all
  also have "map2 (XOR) (map2 (XOR) ?r b) c = a"
    using eq by (intro xor_cancel) simp_all
  finally have again: "xorBlockData [?r, b, c] = Inr a" .
  from r len again
  show "\<exists>r. xorBlockData [a, b, c] = Inr r \<and> length r = length a \<and> xorBlockData [r, b, c] = Inr a"
    by blast
next
  fix r
  assume "xorBlockData blockData = Inr r"
  from xorBlockData_Inr [OF this]
  show "list_all (\<lambda>d. length d = length r) blockData" by simp
next
  fix loaded
  assume a: "loadBlockData fs (handles tuple) = Inr loaded
             \<and> list_ex (\<lambda>d. length d \<noteq> length (hd loaded)) loaded"
  then have "loaded \<noteq> []" by auto
  with a have ne: "handles tuple \<noteq> []" by auto
  from a have "xorBlockData loaded = Inl (HandleTupleError BlockSizesMustMatch)"
    by (simp add: xorBlockData_mismatch)
  with a ne
  have "BlockHandleTuple_xor_block calculateChecksum now fs tuple destBlockMetadata
        = Inl (HandleTupleError BlockSizesMustMatch)"
    by (simp add: BlockHandleTuple_xor_block_def)
  then show "BlockHandleTuple_xor calculateChecksum now fs tuple store destBlockMetadata
             = (Inl (HandleTupleError BlockSizesMustMatch), fs)"
    by (simp add: BlockHandleTuple_xor_def)
next
  fix h fs1
  assume a: "BlockHandleTuple_xor calculateChecksum now fs tuple store destBlockMetadata
             = (Inr h, fs1)"
  then obtain block c where
    blk: "BlockHandleTuple_xor_block calculateChecksum now fs tuple destBlockMetadata
          = Inr (block, c)"
    and set: "setData calculateChecksum now fs store block = (Inr (), fs1)"
    and h: "h = get store c"
    by (auto simp: BlockHandleTuple_xor_def split: sum.splits prod.splits)
  from BlockHandleTuple_xor_block_Inr [OF blk] obtain loaded result where
    l: "loadBlockData fs (handles tuple) = Inr loaded"
    and x: "xorBlockData loaded = Inr result"
    and d: "data block = result" "idChecksum block = c"
    by blast
  note s = setData_Inr [OF set]
  note w = writeFileSync_Some [OF s [THEN conjunct2, THEN conjunct2, THEN conjunct2]]
  from w d h have "BlockHandle_data fs1 h = Inr result"
    by (simp add: BlockHandle_data_def get_def)
  with l x xorBlockData_Inr [OF x]
  show "\<exists>loaded result. loadBlockData fs (handles tuple) = Inr loaded
          \<and> xorBlockData loaded = Inr result
          \<and> list_all (\<lambda>d. length d = length result) loaded
          \<and> BlockHandle_data fs1 h = Inr result"
    by blast
qed

theorem C4_tuple_xor_witness:
  "(\<exists>r. xorBlockData [[1, 2, 3, 4], [5, 6, 7, 8], [9, 10, 11, 12]] = Inr r
        \<and> length r = 4
        \<and> xorBlockData [r, [5, 6, 7, 8], [9, 10, 11, 12]] = Inr [1, 2, 3, 4])
   \<and> BlockHandleTuple_xor example_checksum 0 example_files
        (BlockHandleTuple [example_handle 4 ''/a'', example_handle 4 ''/short'',
                           example_handle 4 ''/c''])
        example_store (example_metadata None)
      = (Inl (HandleTupleError BlockSizesMustMatch), example_files)"
proof -
  note t = C4_tuple_xor [of "[1, 2, 3, 4]" "[5, 6, 7, 8]" "[9, 10, 11, 12]" "[]" example_files
      "BlockHandleTuple [example_handle 4 ''/a'', example_handle 4 ''/short'',
                         example_handle 4 ''/c'']"
      example_checksum 0 example_store "example_metadata None"]
  have eq: "length [1, 2, 3, 4 :: byte] = length [5, 6, 7, 8 :: byte]
            \<and> length [5, 6, 7, 8 :: byte] = length [9, 10, 11, 12 :: byte]"
    by simp
  have ld: "loadBlockData example_files
              (handles (BlockHandleTuple [example_handle 4 ''/a'', example_handle 4 ''/short'',
                                          example_handle 4 ''/c'']))
            = Inr [[1, 2, 3, 4], [1, 2], [9, 10, 11, 12]]"
    by (simp add: example_files_def example_handle_def BlockHandle_data_def)
  have ex: "list_ex (\<lambda>d. length d \<noteq> length (hd [[1, 2, 3, 4], [1, 2], [9, 10, 11, 12 :: byte]]))
              [[1, 2, 3, 4], [1, 2], [9, 10, 11, 12]]"
    by simp
  have l4: "length [1, 2, 3, 4 :: byte] = 4"
    by simp
  from t eq have 1: "\<exists>r. xorBlockData [[1, 2, 3, 4], [5, 6, 7, 8], [9, 10, 11, 12]] = Inr r
        \<and> length r = length [1, 2, 3, 4 :: byte]
        \<and> xorBlockData [r, [5, 6, 7, 8], [9, 10, 11, 12]] = Inr [1, 2, 3, 4]"
    by blast
  from t ld ex have 2: "BlockHandleTuple_xor example_checksum 0 example_files
        (BlockHandleTuple [example_handle 4 ''/a'', example_handle 4 ''/short'',
                           example_handle 4 ''/c''])
        example_store (example_metadata None)
      = (Inl (HandleTupleError BlockSizesMustMatch), example_files)"
    by blast
  from 1 2 show ?thesis unfolding l4 by blast
qed


lemma BlockHandleTuple_new_eq:
  "BlockHandleTuple_new hs =
     (if length hs \<noteq> TUPLE_SIZE then Inl (HandleTupleError InvalidTupleSize)
      else if \<not> list_all (\<lambda>h. handle_blockSize h = handle_blockSize (hd hs)) hs
      then Inl (HandleTupleError HandleTuple_BlockSizeMismatch)
      else Inr (BlockHandleTuple hs))"
  by (cases hs) (simp_all add: BlockHandleTuple_new_def TUPLE_SIZE_def)

text \<open>
  Claim C9. The constructor of \<open>BlockHandleTuple\<close> fails with \<open>InvalidTupleSize\<close> for every
  array whose length differs from \<open>TUPLE_SIZE\<close>, fails with \<open>BlockSizeMismatch\<close> for every
  array of \<open>TUPLE_SIZE\<close> handles of which one has a blockSize other than the first's, and
  succeeds exactly when the arity is \<open>TUPLE_SIZE\<close> and all blockSizes are equal; the tuple
  then holds the array.
\<close>

theorem C9_tuple_constructor:
  "(length hs \<noteq> TUPLE_SIZE \<longrightarrow>
      BlockHandleTuple_new hs = Inl (HandleTupleError InvalidTupleSize))
   \<and> (length hs = TUPLE_SIZE
        \<and> list_ex (\<lambda>h. handle_blockSize h \<noteq> handle_blockSize (hd hs)) hs \<longrightarrow>
      BlockHandleTuple_new hs = Inl (HandleTupleError HandleTuple_BlockSizeMismatch))
   \<and> ((\<exists>t. BlockHandleTuple_new hs = Inr t)
        = (length hs = TUPLE_SIZE
           \<and> list_all (\<lambda>h. handle_blockSize h = handle_blockSize (hd hs)) hs))
   \<and> (length hs = TUPLE_SIZE
        \<and> list_all (\<lambda>h. handle_blockSize h = handle_blockSize (hd hs)) hs \<longrightarrow>
      BlockHandleTuple_new hs = Inr (BlockHandleTuple hs))"
proof -
  have ex: "list_ex (\<lambda>h. handle_blockSize h \<noteq> handle_blockSize (hd hs)) hs
            = (\<not> list_all (\<lambda>h. handle_blockSize h = handle_blockSize (hd hs)) hs)"
    by (simp add: list_ex_iff list_all_iff)
  show ?thesis
    unfolding ex by (simp add: BlockHandleTuple_new_eq)
qed

theorem C9_tuple_constructor_witness:
  "BlockHandleTuple_new [example_handle 4 ''/a'', example_handle 4 ''/b'']
     = Inl (HandleTupleError InvalidTupleSize)
   \<and> BlockHandleTuple_new [example_handle 4 ''/a'', example_handle 8 ''/b'',
                            example_handle 4 ''/c'']
     = Inl (HandleTupleError HandleTuple_BlockSizeMismatch)
   \<and> BlockHandleTuple_new [example_handle 4 ''/a'', example_handle 4 ''/b'',
                            example_handle 4 ''/c'']
     = Inr (BlockHandleTuple [example_handle 4 ''/a'', example_handle 4 ''/b'',
                              example_handle 4 ''/c''])"
proof -
  have a: "length [example_handle 4 ''/a'', example_handle 4 ''/b''] \<noteq> TUPLE_SIZE"
    by (simp add: TUPLE_SIZE_def)
  have b: "length [example_handle 4 ''/a'', example_handle 8 ''/b'', example_handle 4 ''/c'']
             = TUPLE_SIZE
           \<and> list_ex (\<lambda>h. handle_blockSize h \<noteq> handle_blockSize
                   (hd [example_handle 4 ''/a'', example_handle 8 ''/b'', example_handle 4 ''/c'']))
               [example_handle 4 ''/a'', example_handle 8 ''/b'', example_handle 4 ''/c'']"
    by (simp add: TUPLE_SIZE_def example_handle_def)
  have c: "length [example_handle 4 ''/a'', example_handle 4 ''/b'', example_handle 4 ''/c'']
             = TUPLE_SIZE
           \<and> list_all (\<lambda>h. handle_blockSize h = handle_blockSize
                   (hd [example_handle 4 ''/a'', example_handle 4 ''/b'', example_handle 4 ''/c'']))
               [example_handle 4 ''/a'', example_handle 4 ''/b'', example_handle 4 ''/c'']"
    by (simp add: TUPLE_SIZE_def example_handle_def)
  from C9_tuple_constructor [of "[example_handle 4 ''/a'', example_handle 4 ''/b'']"] a
  have 1: "BlockHandleTuple_new [example_handle 4 ''/a'', example_handle 4 ''/b'']
     = Inl (HandleTupleError InvalidTupleSize)"
    by blast
  from C9_tuple_constructor [of "[example_handle 4 ''/a'', example_handle 8 ''/b'',
      example_handle 4 ''/c'']"] b
  have 2: "BlockHandleTuple_new [example_handle 4 ''/a'', example_handle 8 ''/b'',
                            example_handle 4 ''/c'']
     = Inl (HandleTupleError HandleTuple_BlockSizeMismatch)"
    by blast
  from C9_tuple_constructor [of "[example_handle 4 ''/a'', example_handle 4 ''/b'',
      example_handle 4 ''/c'']"] c
  have 3: "BlockHandleTuple_new [example_handle 4 ''/a'', example_handle 4 ''/b'',
                            example_handle 4 ''/c'']
     = Inr (BlockHandleTuple [example_handle 4 ''/a'', example_handle 4 ''/b'',
                              example_handle 4 ''/c''])"
    by blast
  from 1 2 3 show ?thesis by blast
qed

text \<open>
  \<open>xor\<close> fails with \<open>NoBlocksToXor\<close> exactly when the list of handles it reads is empty:
  every other failure is a different error.
\<close>

lemma BlockHandleTuple_xor_NoBlocksToXor_iff:
  "(fst (BlockHandleTuple_xor calculateChecksum now fs tuple store destBlockMetadata)
      = Inl (HandleTupleError NoBlocksToXor))
   = (handles tuple = [])"
proof (cases "handles tuple = []")
  case True
  then show ?thesis
    by (simp add: BlockHandleTuple_xor_def BlockHandleTuple_xor_block_def)
next
  case False
  have "fst (BlockHandleTuple_xor calculateChecksum now fs tuple store destBlockMetadata)
         \<noteq> Inl (HandleTupleError NoBlocksToXor)"
  proof
    assume e: "fst (BlockHandleTuple_xor calculateChecksum now fs tuple store destBlockMetadata)
               = Inl (HandleTupleError NoBlocksToXor)"
    obtain r fs1 where rf:
      "BlockHandleTuple_xor calculateChecksum now fs tuple store destBlockMetadata = (r, fs1)"
      by (cases "BlockHandleTuple_xor calculateChecksum now fs tuple store destBlockMetadata")
    with e have "BlockHandleTuple_xor calculateChecksum now fs tuple store destBlockMetadata
                 = (Inl (HandleTupleError NoBlocksToXor), fs1)"
      by simp
    from BlockHandleTuple_xor_Inl [OF this False] show False by simp
  qed
  with False show ?thesis by simp
qed

text \<open>
  Claim C10, as stated, fails: the invariant is not out of reach of the tuple's users.
  The constructor accepts the array at reference 0 of the example heap and keeps that
  reference; after the caller has popped the three handles off the array, \<open>xor\<close> on the
  constructed tuple fails with \<open>NoBlocksToXor\<close>.
\<close>

theorem C10_tuple_array_shared_counterexample:
  "BlockHandleTuple_constructor example_heap 0 = Inr (BlockHandleTupleObject 0)
   \<and> BlockHandleTupleObject_xor example_checksum 0 example_files
       (Array_pop (Array_pop (Array_pop example_heap 0) 0) 0) (BlockHandleTupleObject 0)
       example_store (example_metadata None)
     = (Inl (HandleTupleError NoBlocksToXor), example_files)"
  by (simp add: BlockHandleTuple_constructor_def BlockHandleTuple_new_eq TUPLE_SIZE_def
        BlockHandleTupleObject_xor_def BlockHandleTuple_xor_def BlockHandleTuple_xor_block_def
        Array_pop_def example_heap_def example_handle_def)

text \<open>
  Claim C10, amended. A successfully constructed tuple refers to the array it was given,
  which then holds exactly \<open>TUPLE_SIZE\<close> handles, and no method of the class changes the
  array. \<open>xor\<close> fails with \<open>NoBlocksToXor\<close> exactly when the array is empty at the call:
  never while the array holds what it held at construction, and always once a holder of
  the reference (the caller of the constructor, or a reader of the \<open>handles\<close> getter) has
  emptied it, so the guard in \<open>xor\<close> is reachable.
\<close>

theorem C10_tuple_array_shared:
  "BlockHandleTuple_constructor heap array = Inr tuple \<longrightarrow>
     handles_ref tuple = array
     \<and> length (heap (handles_ref tuple)) = TUPLE_SIZE
     \<and> (\<forall>heap'. heap' (handles_ref tuple) = heap (handles_ref tuple) \<longrightarrow>
           fst (BlockHandleTupleObject_xor calculateChecksum now fs heap' tuple store
                  destBlockMetadata)
           \<noteq> Inl (HandleTupleError NoBlocksToXor))
     \<and> (\<forall>heap'. (fst (BlockHandleTupleObject_xor calculateChecksum now fs heap' tuple store
                          destBlockMetadata)
                   = Inl (HandleTupleError NoBlocksToXor))
                = (heap' (handles_ref tuple) = []))"
proof
  assume new: "BlockHandleTuple_constructor heap array = Inr tuple"
  then have r: "handles_ref tuple = array" and len: "length (heap array) = TUPLE_SIZE"
    by (auto simp: BlockHandleTuple_constructor_def BlockHandleTuple_new_eq
             split: if_splits sum.splits)
  then have ne: "heap (handles_ref tuple) \<noteq> []"
    by (auto simp: TUPLE_SIZE_def)
  have iff: "\<forall>heap'. (fst (BlockHandleTupleObject_xor calculateChecksum now fs heap' tuple store
                          destBlockMetadata)
                   = Inl (HandleTupleError NoBlocksToXor))
                = (heap' (handles_ref tuple) = [])"
    by (simp add: BlockHandleTupleObject_xor_def BlockHandleTuple_xor_NoBlocksToXor_iff)
  with ne have same: "\<forall>heap'. heap' (handles_ref tuple) = heap (handles_ref tuple) \<longrightarrow>
           fst (BlockHandleTupleObject_xor calculateChecksum now fs heap' tuple store
                  destBlockMetadata)
           \<noteq> Inl (HandleTupleError NoBlocksToXor)"
    by simp
  from r len iff same
  show "handles_ref tuple = array
     \<and> length (heap (handles_ref tuple)) = TUPLE_SIZE
     \<and> (\<forall>heap'. heap' (handles_ref tuple) = heap (handles_ref tuple) \<longrightarrow>
           fst (BlockHandleTupleObject_xor calculateChecksum now fs heap' tuple store
                  destBlockMetadata)
           \<noteq> Inl (HandleTupleError NoBlocksToXor))
     \<and> (\<forall>heap'. (fst (BlockHandleTupleObject_xor calculateChecksum now fs heap' tuple store
                          destBlockMetadata)
                   = Inl (HandleTupleError NoBlocksToXor))
                = (heap' (handles_ref tuple) = []))"
    by simp
qed

theorem C10_tuple_array_shared_witness:
  "length (example_heap 0) = TUPLE_SIZE
   \<and> fst (BlockHandleTupleObject_xor example_checksum 0 example_files example_heap
            (BlockHandleTupleObject 0) example_store (example_metadata None))
       \<noteq> Inl (HandleTupleError NoBlocksToXor)
   \<and> fst (BlockHandleTupleObject_xor example_checksum 0 example_files
            (Array_pop (Array_pop (Array_pop example_heap 0) 0) 0)
            (BlockHandleTupleObject 0) example_store (example_metadata None))
       = Inl (HandleTupleError NoBlocksToXor)"
proof -
  have new: "BlockHandleTuple_constructor example_heap 0 = Inr (BlockHandleTupleObject 0)"
    by (simp add: BlockHandleTuple_constructor_def BlockHandleTuple_new_eq TUPLE_SIZE_def
          example_heap_def example_handle_def)
  have r: "handles_ref (BlockHandleTupleObject 0) = 0"
    by simp
  have emptied: "Array_pop (Array_pop (Array_pop example_heap 0) 0) 0
                   (handles_ref (BlockHandleTupleObject 0)) = []"
    by (simp add: Array_pop_def example_heap_def)
  note t = C10_tuple_array_shared [of example_heap 0 "BlockHandleTupleObject 0"
      example_checksum 0 example_files example_store "example_metadata None"]
  from t new have 1: "length (example_heap (handles_ref (BlockHandleTupleObject 0))) = TUPLE_SIZE"
    by blast
  from t new have 2: "fst (BlockHandleTupleObject_xor example_checksum 0 example_files
            example_heap (BlockHandleTupleObject 0) example_store (example_metadata None))
       \<noteq> Inl (HandleTupleError NoBlocksToXor)"
    by blast
  from t new emptied have 3: "fst (BlockHandleTupleObject_xor example_checksum 0 example_files
            (Array_pop (Array_pop (Array_pop example_heap 0) 0) 0)
            (BlockHandleTupleObject 0) example_store (example_metadata None))
       = Inl (HandleTupleError NoBlocksToXor)"
    by blast
  from 1 2 3 show ?thesis
    unfolding r by blast
qed

text \<open>
  The creation date of the block each of the two \<open>xor\<close> operations builds.
  \<open>BlockHandleTuple.xor\<close> takes the date of the destination metadata and falls back to
  the current time; \<open>DiskBlockAsyncStore.xor\<close> takes \<open>new Date(destBlockMetadata.dateCreated)\<close>
  with no fallback, which is the invalid date when the metadata has none.
\<close>

lemma BlockHandleTuple_xor_dateCreated:
  assumes "BlockHandleTuple_xor_block calculateChecksum now fs tuple destBlockMetadata
             = Inr (block, c)"
  shows "dateCreated block
           = (case dest_dateCreated destBlockMetadata of Some d \<Rightarrow> d | None \<Rightarrow> Time now)"
  using BlockHandleTuple_xor_block_Inr [OF assms] by blast

lemma DiskBlockAsyncStore_xor_dateCreated:
  assumes "DiskBlockAsyncStore_xor calculateChecksum now fs store blocks destBlockMetadata = Inr block"
  shows "dateCreated block
           = (case dest_dateCreated destBlockMetadata of Some d \<Rightarrow> d | None \<Rightarrow> InvalidDate)"
  using assms
  by (auto simp: DiskBlockAsyncStore_xor_def dest!: RawDataBlock_new_Inr
           split: if_splits sum.splits option.splits prod.splits)

text \<open>
  Claim C8 at a destination metadata without \<open>dateCreated\<close>, clock reading 1000:
  \<open>DiskBlockAsyncStore.xor\<close> of two stored blocks returns a block whose creation date is
  the invalid date, not the current time, while \<open>BlockHandleTuple.xor\<close> builds its block
  with the current time.
\<close>

theorem C8_store_xor_without_dateCreated:
  "DiskBlockAsyncStore_xor example_checksum 1000 example_files example_store
     [example_handle 4 ''/a'', example_handle 4 ''/b''] (example_metadata None)
   = Inr ((example_block 4 [4, 4, 4, 12]) \<lparr> dateCreated := InvalidDate \<rparr>)
   \<and> BlockHandleTuple_xor_block example_checksum 1000 example_files
       (BlockHandleTuple [example_handle 4 ''/a'', example_handle 4 ''/b'',
                          example_handle 4 ''/c''])
       (example_metadata None)
     = Inr ((example_block 4 [13, 14, 15, 0]) \<lparr> dateCreated := Time 1000 \<rparr>,
            example_checksum [13, 14, 15, 0])"
  by (simp add: DiskBlockAsyncStore_xor_def BlockHandleTuple_xor_block_def xorPipeline_def
        xorBlockData_def BlockHandle_fullData_def BlockHandle_data_def RawDataBlock_new_def
        example_files_def example_handle_def example_metadata_def example_block_def
        example_checksum_def example_store_def Let_def upt_rec)

section \<open>Quorum sealing: the round trip\<close>

lemma hex_digits_16:
  "list_all (\<lambda>n. hexValue (hexChar n) = Some n \<and> hexChar n \<in> set ''0123456789abcdef'') [0..<16]"
  by code_simp

lemma hexValue_hexChar:
  assumes "n < 16"
  shows "hexValue (hexChar n) = Some n \<and> hexChar n \<in> set ''0123456789abcdef''"
proof -
  from assms have "n \<in> set [0..<16]" by simp
  with hex_digits_16 show ?thesis
    unfolding list_all_iff by blast
qed

lemma hexChar_hexValue:
  assumes "c \<in> set ''0123456789abcdef''"
  shows "\<exists>n < 16. hexValue c = Some n \<and> hexChar n = c"
  using assms by (auto simp: hexValue_def hexChar_def)

lemma byte_nibbles:
  fixes x :: byte
  shows "unat x div 16 < 16" and "unat x mod 16 < 16"
    and "(of_nat (16 * (unat x div 16) + unat x mod 16) :: byte) = x"
proof -
  have "unat x < 2 ^ LENGTH(8)" by (rule unsigned_less)
  then show "unat x div 16 < 16" by simp
  show "unat x mod 16 < 16" by simp
  show "(of_nat (16 * (unat x div 16) + unat x mod 16) :: byte) = x" by simp
qed

lemma from_hex_toString: "Buffer_from_hex (Buffer_toString_hex b) = b"
proof (induction b)
  case Nil
  then show ?case by (simp add: Buffer_toString_hex_def)
next
  case (Cons x b)
  from Cons show ?case
    using hexValue_hexChar [OF byte_nibbles(1) [of x]] hexValue_hexChar [OF byte_nibbles(2) [of x]]
      byte_nibbles(3) [of x]
    by (simp add: Buffer_toString_hex_def)
qed

lemma isLowerHex_toString: "isLowerHex (Buffer_toString_hex b)"
proof (induction b)
  case Nil
  then show ?case by (simp add: Buffer_toString_hex_def)
next
  case (Cons x b)
  from Cons show ?case
    using hexValue_hexChar [OF byte_nibbles(1) [of x]] hexValue_hexChar [OF byte_nibbles(2) [of x]]
    by (simp add: Buffer_toString_hex_def)
qed

lemma toString_from_hex: "isLowerHex s \<Longrightarrow> Buffer_toString_hex (Buffer_from_hex s) = s"
proof (induction s rule: isLowerHex.induct)
  case 1
  then show ?case by (simp add: Buffer_toString_hex_def)
next
  case (2 c)
  then show ?case by simp
next
  case (3 c1 c2 rest)
  then have c1: "c1 \<in> set ''0123456789abcdef''" and c2: "c2 \<in> set ''0123456789abcdef''"
    and r: "isLowerHex rest"
    by simp_all
  from hexChar_hexValue [OF c1] obtain h where h: "h < 16" "hexValue c1 = Some h" "hexChar h = c1"
    by blast
  from hexChar_hexValue [OF c2] obtain l where l: "l < 16" "hexValue c2 = Some l" "hexChar l = c2"
    by blast
  have "unat (of_nat (16 * h + l) :: byte) = (16 * h + l) mod 2 ^ LENGTH(8)"
    by (rule unat_of_nat)
  also have "\<dots> = 16 * h + l"
    using h l by simp
  finally have u: "unat (of_nat (16 * h + l) :: byte) = 16 * h + l" .
  from h l have dm: "(16 * h + l) div 16 = h" "(16 * h + l) mod 16 = l"
    by simp_all
  have "Buffer_toString_hex (Buffer_from_hex (c1 # c2 # rest))
        = [hexChar h, hexChar l] @ Buffer_toString_hex (Buffer_from_hex rest)"
    using h l u dm by (simp add: Buffer_toString_hex_def)
  with 3 r h l show ?case
    by simp
qed

text \<open>
  The round trip that holds. With members whose id objects and id texts are pairwise
  distinct, \<open>encryptSharesForMembers\<close> gives member number \<open>i\<close> share number \<open>i\<close>
  under its own public key and its own id text.
\<close>

lemma find_member_by_id:
  assumes "distinct (map (\<lambda>m. guid_object (member_id m)) members)" and "i < length members"
  shows "find (\<lambda>v. guid_object (member_id v) = guid_object (member_id (members ! i))) members
         = Some (members ! i)"
proof -
  let ?ob = "\<lambda>m. guid_object (member_id m)"
  have "\<forall>j<i. ?ob (members ! j) \<noteq> ?ob (members ! i)"
  proof (intro allI impI)
    fix j
    assume "j < i"
    with assms(2) have "j < length (map ?ob members)" "i < length (map ?ob members)" "j \<noteq> i"
      by simp_all
    with assms(1) have "map ?ob members ! j \<noteq> map ?ob members ! i"
      using nth_eq_iff_index_eq by blast
    with \<open>j < i\<close> assms(2) show "?ob (members ! j) \<noteq> ?ob (members ! i)"
      by simp
  qed
  with assms(2) show ?thesis
    unfolding find_Some_iff by blast
qed

lemma encryptLoop_fold:
  assumes "distinct (map (\<lambda>m. guid_object (member_id m)) members)"
    and "list_all (\<lambda>i. i < length members) indices"
  shows "encryptLoop lib shares members indices acc =
         Inr (fold (\<lambda>i. AList.update (asShortHexGuid (member_id (members ! i)))
                          (ecies_encrypt lib (publicKey (members ! i)) (Buffer_from_hex (shares ! i))))
                indices acc)"
  using assms(2)
proof (induction indices arbitrary: acc)
  case Nil
  then show ?case by simp
next
  case (Cons i rest)
  then have "i < length members" by simp
  from find_member_by_id [OF assms(1) this] Cons show ?case
    by (simp add: Let_def)
qed

lemma fold_update_lookup:
  fixes key :: "nat \<Rightarrow> 'k" and val :: "nat \<Rightarrow> 'a"
  assumes "distinct (map key indices)"
  shows "(\<forall>j\<in>set indices. map_of (fold (\<lambda>i. AList.update (key i) (val i)) indices acc) (key j)
                             = Some (val j))
         \<and> (\<forall>k. k \<notin> key ` set indices \<longrightarrow>
                map_of (fold (\<lambda>i. AList.update (key i) (val i)) indices acc) k = map_of acc k)"
  using assms
proof (induction indices arbitrary: acc)
  case Nil
  then show ?case by simp
next
  case (Cons i rest)
  then have d: "distinct (map key rest)" and n: "key i \<notin> key ` set rest"
    by auto
  note ih = Cons.IH [OF d, of "AList.update (key i) (val i) acc"]
  show ?case
  proof (intro conjI ballI allI impI)
    fix j
    assume "j \<in> set (i # rest)"
    then consider "j \<in> set rest" | "j = i" "j \<notin> set rest" by auto
    then show "map_of (fold (\<lambda>i. AList.update (key i) (val i)) (i # rest) acc) (key j)
               = Some (val j)"
    proof cases
      case 1
      with ih show ?thesis by simp
    next
      case 2
      with ih n show ?thesis by (simp add: update_conv')
    qed
  next
    fix k
    assume "k \<notin> key ` set (i # rest)"
    then have "k \<notin> key ` set rest" "k \<noteq> key i" by auto
    with ih show "map_of (fold (\<lambda>i. AList.update (key i) (val i)) (i # rest) acc) k = map_of acc k"
      by (simp add: update_conv')
  qed
qed

lemma fold_update_length:
  fixes key :: "nat \<Rightarrow> 'k" and val :: "nat \<Rightarrow> 'a"
  assumes "distinct (map key indices)" and "key ` set indices \<inter> fst ` set acc = {}"
  shows "length (fold (\<lambda>i. AList.update (key i) (val i)) indices acc) = length acc + length indices"
  using assms
proof (induction indices arbitrary: acc)
  case Nil
  then show ?case by simp
next
  case (Cons i rest)
  then have d: "distinct (map key rest)" and n: "key i \<notin> key ` set rest"
    and fresh: "key i \<notin> fst ` set acc" and rest: "key ` set rest \<inter> fst ` set acc = {}"
    by auto
  have len: "length (AList.update (key i) (val i) acc) = Suc (length acc)"
  proof -
    have "length (AList.update (key i) (val i) acc)
          = length (map fst (AList.update (key i) (val i) acc))"
      by simp
    also have "\<dots> = Suc (length acc)"
      using fresh unfolding update_keys by simp
    finally show ?thesis .
  qed
  have "key ` set rest \<inter> fst ` set (AList.update (key i) (val i) acc) = {}"
    using n rest by (auto simp: dom_update)
  from Cons.IH [OF d this] len show ?case by simp
qed

lemma encryptSharesForMembers_distinct:
  assumes "distinct (map (\<lambda>m. guid_object (member_id m)) members)"
    and "distinct (map (\<lambda>m. asShortHexGuid (member_id m)) members)"
    and "length shares = length members"
  shows "\<exists>m. encryptSharesForMembers lib shares members = Inr m
             \<and> length m = length members
             \<and> (\<forall>i<length members.
                   map_of m (asShortHexGuid (member_id (members ! i)))
                   = Some (ecies_encrypt lib (publicKey (members ! i))
                             (Buffer_from_hex (shares ! i))))"
proof -
  let ?key = "\<lambda>i. asShortHexGuid (member_id (members ! i))"
  let ?val = "\<lambda>i. ecies_encrypt lib (publicKey (members ! i)) (Buffer_from_hex (shares ! i))"
  let ?m = "fold (\<lambda>i. AList.update (?key i) (?val i)) [0..<length members] []"
  have idx: "list_all (\<lambda>i. i < length members) [0..<length members]"
    by (simp add: list_all_iff)
  have run: "encryptSharesForMembers lib shares members = Inr ?m"
    using assms(3) encryptLoop_fold [OF assms(1) idx, of lib shares "[]"]
    by (simp add: encryptSharesForMembers_def)
  have keys: "map ?key [0..<length members] = map (\<lambda>m. asShortHexGuid (member_id m)) members"
    by (intro nth_equalityI) simp_all
  with assms(2) have d: "distinct (map ?key [0..<length members])"
    by simp
  have len: "length ?m = length members"
    using fold_update_length [OF d, of "[]" ?val] by simp
  have look: "\<forall>i<length members. map_of ?m (?key i) = Some (?val i)"
    using fold_update_lookup [OF d, of ?val "[]"] by simp
  from run len look show ?thesis by blast
qed

lemma decryptLoop_shares:
  assumes ecies: "\<forall>pk sk m. isKeyPair pk sk \<longrightarrow>
                    ecies_decryptWithHeader lib sk (ecies_encrypt lib pk m) = Inr m"
    and hex: "list_all isLowerHex shares" and len: "length shares = length members"
    and look: "\<forall>i<length members.
                 map_of (encryptedSharesByMemberId document)
                   (asShortHexGuid (member_id (members ! i)))
                 = Some (ecies_encrypt lib (publicKey (members ! i)) (Buffer_from_hex (shares ! i)))"
    and f: "\<forall>s\<in>set S. f s < length members
              \<and> asShortHexGuid (member_id (members ! f s)) = asShortHexGuid (member_id s)
              \<and> (\<exists>sk. privateKey s = Some sk \<and> isKeyPair (publicKey (members ! f s)) sk)"
  shows "decryptLoop lib document S = Inr (map (\<lambda>s. shares ! f s) S)"
  using f
proof (induction S)
  case Nil
  then show ?case by simp
next
  case (Cons s rest)
  then have i: "f s < length members"
    and id: "asShortHexGuid (member_id (members ! f s)) = asShortHexGuid (member_id s)"
    by simp_all
  from Cons.prems obtain sk where sk: "privateKey s = Some sk"
    "isKeyPair (publicKey (members ! f s)) sk"
    by auto
  from look i id have enc: "map_of (encryptedSharesByMemberId document)
        (asShortHexGuid (member_id s))
      = Some (ecies_encrypt lib (publicKey (members ! f s)) (Buffer_from_hex (shares ! f s)))"
    by metis
  from ecies sk have dec: "ecies_decryptWithHeader lib sk
      (ecies_encrypt lib (publicKey (members ! f s)) (Buffer_from_hex (shares ! f s)))
      = Inr (Buffer_from_hex (shares ! f s))"
    by blast
  from hex len i have "isLowerHex (shares ! f s)"
    by (simp add: list_all_length)
  then have str: "Buffer_toString_hex (Buffer_from_hex (shares ! f s)) = shares ! f s"
    by (rule toString_from_hex)
  from Cons have "decryptLoop lib document rest = Inr (map (\<lambda>s. shares ! f s) rest)"
    by simp
  with enc sk dec str show ?case by simp
qed

lemma quorumSeal_Inr:
  assumes "quorumSeal lib agent' v members t = Inr document"
  shows "\<exists>bits keyShares.
           MinimumShares \<le> sharesRequired document
           \<and> sharesRequired document \<le> length members
           \<and> sharesRequired document = (case t of None \<Rightarrow> length members | Some n \<Rightarrow> n)
           \<and> reinitSecrets (length members) = Inr bits
           \<and> secrets_share lib bits (Buffer_toString_hex (fst (symmetricEncryptJson lib v)))
                (length members) (sharesRequired document) = Inr keyShares
           \<and> encryptSharesForMembers lib keyShares members
                = Inr (encryptedSharesByMemberId document)
           \<and> encryptedData document = snd (symmetricEncryptJson lib v)"
  using assms
  by (auto simp: quorumSeal_def validateQuorumSealInputs_def Let_def
           split: sum.splits if_splits)

text \<open>
  Fewer members than \<open>sharesRequired\<close>, which
  is the threshold given to \<open>quorumSeal\<close>, fail with \<open>NotEnoughMembersToUnlock\<close>.
\<close>

lemma quorumUnseal_fewer:
  assumes "quorumSeal lib agent' v members t = Inr document"
    and "length fewer < (case t of None \<Rightarrow> length members | Some n \<Rightarrow> n)"
  shows "quorumUnseal lib document fewer = Inl (SealingError NotEnoughMembersToUnlock)"
  using quorumSeal_Inr [OF assms(1)] assms(2) by (auto simp: quorumUnseal_def)

text \<open>
  The round trip, under what it needs of the code that is not in the source files (the
  symmetric codec decrypts what it encrypted; \<open>decryptWithHeader\<close> undoes \<open>encrypt\<close> for
  a key pair; any \<open>t\<close> different shares combine to the secret) and under one condition
  more, which is the point: every share is a string of lower-case hex digits, an even
  number of them. Only such a string comes back from \<open>Buffer.from(share, 'hex')\<close> and
  \<open>toString('hex')\<close> as it went in.
\<close>

lemma quorumUnseal_roundtrip:
  assumes seal: "quorumSeal lib agent' v members t = Inr document"
    and sym: "symmetricDecryptJson lib (snd (symmetricEncryptJson lib v))
                (fst (symmetricEncryptJson lib v)) = Inr v"
    and ecies: "\<forall>pk sk m. isKeyPair pk sk \<longrightarrow>
                  ecies_decryptWithHeader lib sk (ecies_encrypt lib pk m) = Inr m"
    and shamir: "\<forall>bits secret n t shares.
             secrets_share lib bits secret n t = Inr shares \<longrightarrow>
               length shares = n
               \<and> (\<forall>idxs. distinct idxs \<and> list_all (\<lambda>i. i < n) idxs \<and> t \<le> length idxs \<longrightarrow>
                      secrets_combine lib bits (map (nth shares) idxs) = Inr secret)"
    and even_hex: "\<forall>bits n t shares.
             secrets_share lib bits (Buffer_toString_hex (fst (symmetricEncryptJson lib v))) n t
               = Inr shares \<longrightarrow> list_all isLowerHex shares"
    and dob: "distinct (map (\<lambda>m. guid_object (member_id m)) members)"
    and dm: "distinct (map (\<lambda>m. asShortHexGuid (member_id m)) members)"
    and ds: "distinct (map (\<lambda>m. asShortHexGuid (member_id m)) holders)"
    and sub: "list_all (\<lambda>s. \<exists>m\<in>set members.
                 asShortHexGuid (member_id m) = asShortHexGuid (member_id s)
                 \<and> (\<exists>sk. privateKey s = Some sk \<and> isKeyPair (publicKey m) sk)) holders"
    and enough: "sharesRequired document \<le> length holders"
  shows "quorumUnseal lib document holders = Inr v"
proof -
  let ?key = "fst (symmetricEncryptJson lib v)"
  let ?n = "length members"
  let ?tx = "\<lambda>m. asShortHexGuid (member_id m)"
  from quorumSeal_Inr [OF seal] obtain bits keyShares where
    bits: "reinitSecrets ?n = Inr bits"
    and split: "secrets_share lib bits (Buffer_toString_hex ?key) ?n (sharesRequired document)
                = Inr keyShares"
    and enc: "encryptSharesForMembers lib keyShares members
              = Inr (encryptedSharesByMemberId document)"
    and ct: "encryptedData document = snd (symmetricEncryptJson lib v)"
    by blast
  from shamir split
  have shares: "length keyShares = ?n"
    and combine: "\<forall>idxs. distinct idxs \<and> list_all (\<lambda>i. i < ?n) idxs
                    \<and> sharesRequired document \<le> length idxs \<longrightarrow>
                  secrets_combine lib bits (map (nth keyShares) idxs)
                  = Inr (Buffer_toString_hex ?key)"
    by blast+
  from even_hex split have hexs: "list_all isLowerHex keyShares"
    by blast
  from encryptSharesForMembers_distinct [OF dob dm shares, of lib] enc
  have size: "length (encryptedSharesByMemberId document) = ?n"
    and look: "\<forall>i<?n. map_of (encryptedSharesByMemberId document) (?tx (members ! i))
                 = Some (ecies_encrypt lib (publicKey (members ! i))
                           (Buffer_from_hex (keyShares ! i)))"
    by auto
  have "\<forall>s\<in>set holders. \<exists>i. i < ?n \<and> ?tx (members ! i) = ?tx s
          \<and> (\<exists>sk. privateKey s = Some sk \<and> isKeyPair (publicKey (members ! i)) sk)"
  proof
    fix s
    assume "s \<in> set holders"
    with sub obtain m where m: "m \<in> set members" "?tx m = ?tx s"
      "\<exists>sk. privateKey s = Some sk \<and> isKeyPair (publicKey m) sk"
      unfolding list_all_iff by blast
    from m(1) obtain i where "i < ?n" "members ! i = m"
      unfolding in_set_conv_nth by blast
    with m show "\<exists>i. i < ?n \<and> ?tx (members ! i) = ?tx s
          \<and> (\<exists>sk. privateKey s = Some sk \<and> isKeyPair (publicKey (members ! i)) sk)"
      by blast
  qed
  then obtain f where f: "\<forall>s\<in>set holders. f s < ?n \<and> ?tx (members ! f s) = ?tx s
          \<and> (\<exists>sk. privateKey s = Some sk \<and> isKeyPair (publicKey (members ! f s)) sk)"
    using bchoice [of "set holders" "\<lambda>s i. i < ?n \<and> ?tx (members ! i) = ?tx s
          \<and> (\<exists>sk. privateKey s = Some sk \<and> isKeyPair (publicKey (members ! i)) sk)"]
    by blast
  have loop: "decryptLoop lib document holders = Inr (map (\<lambda>s. keyShares ! f s) holders)"
    by (rule decryptLoop_shares [OF ecies hexs shares look f])
  have loaded: "allMembersHavePrivateKey holders"
    using f by (auto simp: allMembersHavePrivateKey_def privateKeyLoaded_def list_all_iff)
  have dec: "decryptShares lib document holders = Inr (map (nth keyShares) (map f holders))"
    using enough loaded loop by (simp add: decryptShares_def comp_def)
  have inj: "inj_on f (set holders)"
  proof (rule inj_onI)
    fix x y
    assume xy: "x \<in> set holders" "y \<in> set holders" "f x = f y"
    with f have "?tx x = ?tx y" by metis
    with ds xy show "x = y"
      by (simp add: distinct_map inj_on_def)
  qed
  from ds have "distinct holders"
    by (simp add: distinct_map)
  with inj have d: "distinct (map f holders)"
    by (simp add: distinct_map)
  have lt: "list_all (\<lambda>i. i < ?n) (map f holders)"
    using f by (simp add: list_all_iff)
  have "sharesRequired document \<le> length (map f holders)"
    using enough by simp
  with combine d lt
  have comb: "secrets_combine lib bits (map (nth keyShares) (map f holders))
              = Inr (Buffer_toString_hex ?key)"
    by blast
  have "quoromUnsealWithShares lib document (map (nth keyShares) (map f holders)) = Inr v"
    using bits size comb sym ct
    by (simp add: quoromUnsealWithShares_def from_hex_toString)
  with dec enough show ?thesis
    by (simp add: quorumUnseal_def)
qed

text \<open>
  The example library does what is asked of such a library, whatever the prefix: the
  codec decrypts what it encrypted, the envelope opens under the key it was closed with,
  and any \<open>t\<close> shares (two at least) combine to the secret.
\<close>

lemma example_library_symmetric:
  "symmetricDecryptJson (example_library prefix)
     (snd (symmetricEncryptJson (example_library prefix) v))
     (fst (symmetricEncryptJson (example_library prefix) v)) = Inr v"
proof -
  have "map ((\<lambda>x. x XOR 85) \<circ> (\<lambda>x. x XOR 85)) v = map (\<lambda>x. x) v"
    by (rule map_cong) (simp_all add: xor.assoc)
  then show ?thesis
    by (simp add: example_library_def)
qed

lemma example_library_ecies:
  "\<forall>pk sk m. pk = sk \<and> length sk = 1 \<longrightarrow>
     ecies_decryptWithHeader (example_library prefix) sk
       (ecies_encrypt (example_library prefix) pk m) = Inr m"
  by (simp add: example_library_def)

lemma example_library_shamir:
  "\<forall>bits secret n t shares.
     secrets_share (example_library prefix) bits secret n t = Inr shares \<longrightarrow>
       length shares = n
       \<and> (\<forall>idxs. distinct idxs \<and> list_all (\<lambda>i. i < n) idxs \<and> t \<le> length idxs \<longrightarrow>
              secrets_combine (example_library prefix) bits (map (nth shares) idxs) = Inr secret)"
proof (intro allI impI conjI)
  fix bits :: nat and secret n t shares idxs
  assume s: "secrets_share (example_library prefix) bits secret n t = Inr shares"
  then have t: "2 \<le> t" "t \<le> n"
    and sh: "shares = map (\<lambda>i. prefix @ [hexChar (i mod 16)] @ secret) [0..<n]"
    by (auto simp: example_library_def split: if_splits)
  from sh show "length shares = n" by simp
  assume i: "distinct idxs \<and> list_all (\<lambda>i. i < n) idxs \<and> t \<le> length idxs"
  with t obtain i rest where idxs: "idxs = i # rest"
    by (cases idxs) auto
  with i have "i < n" by simp
  with sh have "shares ! i = prefix @ [hexChar (i mod 16)] @ secret"
    by simp
  with idxs show "secrets_combine (example_library prefix) bits (map (nth shares) idxs)
                  = Inr secret"
    by (simp add: example_library_def)
qed

lemma example_library_even_hex:
  "\<forall>bits n t shares.
     secrets_share (example_library ''0'') bits
       (Buffer_toString_hex (fst (symmetricEncryptJson (example_library ''0'') v))) n t
       = Inr shares \<longrightarrow> list_all isLowerHex shares"
proof -
  have "\<forall>i. hexChar (i mod 16) \<in> set ''0123456789abcdef''"
    using hex_digits_16 by (simp add: list_all_iff hexChar_def)
  then show ?thesis
    by (auto simp: example_library_def list_all_iff isLowerHex_toString split: if_splits)
qed

text \<open>
  The round trip on the library of even shares: sealed for the members a and b with
  threshold 2 and unsealed by b and a, the value comes back.
\<close>

lemma example_roundtrip_even_shares:
  "\<exists>document.
     quorumSeal (example_library ''0'') (example_member 1 ''a'' 1) [104, 105]
       [example_member 1 ''a'' 1, example_member 2 ''b'' 2] (Some 2) = Inr document
     \<and> quorumUnseal (example_library ''0'') document
         [example_member 2 ''b'' 2, example_member 1 ''a'' 1] = Inr [104, 105]"
proof -
  let ?lib = "example_library ''0''"
  let ?a = "example_member 1 ''a'' 1"
  let ?b = "example_member 2 ''b'' 2"
  obtain document where seal: "quorumSeal ?lib ?a [104, 105] [?a, ?b] (Some 2) = Inr document"
    by (simp add: quorumSeal_def validateQuorumSealInputs_def reinitSecrets_def
        encryptSharesForMembers_def MinimumShares_def MaximumShares_def example_library_def
        example_member_def ceil_log2.simps Let_def upt_rec)
  from quorumSeal_Inr [OF seal] have t: "sharesRequired document = 2"
    by simp
  have dob: "distinct (map (\<lambda>m. guid_object (member_id m)) [?a, ?b])"
    by (simp add: example_member_def)
  have dm: "distinct (map (\<lambda>m. asShortHexGuid (member_id m)) [?a, ?b])"
    by (simp add: example_member_def)
  have ds: "distinct (map (\<lambda>m. asShortHexGuid (member_id m)) [?b, ?a])"
    by (simp add: example_member_def)
  have sub: "list_all (\<lambda>s. \<exists>m\<in>set [?a, ?b].
                 asShortHexGuid (member_id m) = asShortHexGuid (member_id s)
                 \<and> (\<exists>sk. privateKey s = Some sk \<and> publicKey m = sk \<and> length sk = 1)) [?b, ?a]"
    by (simp add: example_member_def)
  have enough: "sharesRequired document \<le> length [?b, ?a]"
    using t by simp
  have "quorumUnseal ?lib document [?b, ?a] = Inr [104, 105]"
    by (rule quorumUnseal_roundtrip [where isKeyPair = "\<lambda>pk sk. pk = sk \<and> length sk = 1",
          OF seal example_library_symmetric example_library_ecies example_library_shamir
             example_library_even_hex dob dm ds sub enough])
  with seal show ?thesis by blast
qed

text \<open>
  Claim C3. Sealed for the members a and b with threshold 2 and unsealed by a and b,
  the value does not come back when the shares have an odd number of hex digits: the
  library splits the key into the shares 00707 and 10707, which combine to the key;
  \<open>Buffer.from(share, 'hex')\<close> in \<open>encryptSharesForMembers\<close> drops the last digit of
  each, \<open>decryptShares\<close> hands 0070 and 1070 to \<open>combine\<close>, and \<open>quorumUnseal\<close> fails
  with \<open>FailedToSeal\<close>, where claim C3 says it returns the value. The other half
  of the claim holds here: one member, fewer than the threshold, fails with
  \<open>NotEnoughMembersToUnlock\<close>.
\<close>

theorem C3_quorum_odd_hex_shares:
  "quorumSeal (example_library '''') (example_member 1 ''a'' 1) [104, 105]
     [example_member 1 ''a'' 1, example_member 2 ''b'' 2] (Some 2) = Inr example_document
   \<and> secrets_share (example_library '''') 3 (Buffer_toString_hex [7, 7]) 2 2
       = Inr [''00707'', ''10707'']
   \<and> secrets_combine (example_library '''') 3 [''00707'', ''10707'']
       = Inr (Buffer_toString_hex [7, 7])
   \<and> Buffer_toString_hex (Buffer_from_hex ''00707'') = ''0070''
   \<and> decryptShares (example_library '''') example_document
       [example_member 1 ''a'' 1, example_member 2 ''b'' 2] = Inr [''0070'', ''1070'']
   \<and> quorumUnseal (example_library '''') example_document
       [example_member 1 ''a'' 1, example_member 2 ''b'' 2] = Inl (SealingError FailedToSeal)
   \<and> quorumUnseal (example_library '''') example_document [example_member 1 ''a'' 1]
       = Inl (SealingError NotEnoughMembersToUnlock)"
proof (intro conjI)
  show "quorumSeal (example_library '''') (example_member 1 ''a'' 1) [104, 105]
     [example_member 1 ''a'' 1, example_member 2 ''b'' 2] (Some 2) = Inr example_document"
    by (simp add: quorumSeal_def validateQuorumSealInputs_def reinitSecrets_def
        encryptSharesForMembers_def MinimumShares_def MaximumShares_def example_library_def
        example_member_def example_document_def Buffer_toString_hex_def hexChar_def
        hexValue_def ceil_log2.simps Let_def upt_rec)
  show "secrets_share (example_library '''') 3 (Buffer_toString_hex [7, 7]) 2 2
       = Inr [''00707'', ''10707'']"
    by (simp add: example_library_def Buffer_toString_hex_def hexChar_def upt_rec)
  show "secrets_combine (example_library '''') 3 [''00707'', ''10707'']
       = Inr (Buffer_toString_hex [7, 7])"
    by (simp add: example_library_def Buffer_toString_hex_def hexChar_def)
  show "Buffer_toString_hex (Buffer_from_hex ''00707'') = ''0070''"
    by (simp add: Buffer_toString_hex_def hexChar_def hexValue_def)
  show "decryptShares (example_library '''') example_document
       [example_member 1 ''a'' 1, example_member 2 ''b'' 2] = Inr [''0070'', ''1070'']"
    by (simp add: decryptShares_def allMembersHavePrivateKey_def privateKeyLoaded_def
        example_library_def example_member_def example_document_def Buffer_toString_hex_def
        hexChar_def)
  show "quorumUnseal (example_library '''') example_document
       [example_member 1 ''a'' 1, example_member 2 ''b'' 2] = Inl (SealingError FailedToSeal)"
    by (simp add: quorumUnseal_def quoromUnsealWithShares_def decryptShares_def
        allMembersHavePrivateKey_def privateKeyLoaded_def reinitSecrets_def MinimumShares_def
        MaximumShares_def example_library_def example_member_def example_document_def
        Buffer_toString_hex_def hexChar_def hexValue_def ceil_log2.simps Let_def)
  show "quorumUnseal (example_library '''') example_document [example_member 1 ''a'' 1]
       = Inl (SealingError NotEnoughMembersToUnlock)"
    by (simp add: quorumUnseal_def example_document_def)
qed

end
